theory Spec2Isabelle
  imports Complex_Main
begin

section \<open>Values shared by the handlers\<close>

text \<open>
  Every external call of the handlers is wrapped in \<^verbatim>\<open>retryGo\<close>, which resolves to the
  pair \<^verbatim>\<open>[err, data]\<close>: on failure \<^verbatim>\<open>err\<close> is set and \<^verbatim>\<open>data\<close> is nil
  (the handlers test \<^verbatim>\<open>isNil(data)\<close> for just this reason), on success \<^verbatim>\<open>err\<close> is nil
  and \<^verbatim>\<open>data\<close> is what the wrapped call returned. The helper itself lives in
  \<^verbatim>\<open>utils\<close>; what the chain, the API and the library answer is a parameter of the model.
\<close>

datatype 'a goResult = GoError | GoSuccess 'a

text \<open>
  \<^verbatim>\<open>Number(deviationPercentage)\<close>: a JavaScript number is \<^verbatim>\<open>NaN\<close> or a value. Values are
  taken as exact rationals: the rounding of binary floating point is outside the model.
\<close>

datatype jsNumber = NaN | Num rat

text \<open>
  \<^verbatim>\<open>ethers.BigNumber\<close> is an unbounded integer; its \<^verbatim>\<open>div\<close> truncates towards zero.
\<close>

definition bnDiv :: "int \<Rightarrow> int \<Rightarrow> int" where
  "bnDiv a b = sgn a * sgn b * (\<bar>a\<bar> div \<bar>b\<bar>)"

datatype gasTarget = LegacyGas int | Eip1559Gas int int

text \<open>The values \<^verbatim>\<open>defaultAbiCoder.encode\<close> and \<^verbatim>\<open>solidityPack\<close> are given, with their types.\<close>

datatype abiValue =
    Uint256 string
  | Address string
  | Bytes32 string
  | Bytes string
  | Bytes4 string
  | Str string

text \<open>
  The library functions the handlers call (ethers, airnode-abi, airnode-node). They are
  parameters: every theorem below holds for whatever these functions compute.
\<close>

record ethersLib =
  keccak256 :: "string \<Rightarrow> string"
  abiEncode :: "abiValue list \<Rightarrow> string"
  solidityPack :: "abiValue list \<Rightarrow> string"
  airnodeAbiEncode :: "(string \<times> string \<times> string) list \<Rightarrow> string"
  getExpectedTemplateId :: "string \<Rightarrow> string \<Rightarrow> string \<Rightarrow> string"
  deriveSponsorWalletFromMnemonic :: "string \<Rightarrow> string \<Rightarrow> string \<Rightarrow> string"
  deriveSponsorWallet :: "string \<Rightarrow> string \<Rightarrow> string \<Rightarrow> string"
  addressFromMnemonic :: "string \<Rightarrow> string"
  addressFromXpub :: "string \<Rightarrow> string"
  decodeConditions :: "string \<Rightarrow> (string \<times> string) option"
  deriveKeeperSponsorWallet :: "string \<Rightarrow> string \<Rightarrow> string"

definition solidityKeccak256 :: "ethersLib \<Rightarrow> abiValue list \<Rightarrow> string" where
  "solidityKeccak256 lib vs = keccak256 lib (solidityPack lib vs)"

text \<open>
  lodash \<^verbatim>\<open>groupBy\<close> followed by \<^verbatim>\<open>Object.keys\<close>: the keys in the order of their first
  occurrence (they are addresses and hashes, never array indices), each with its elements
  in their original order.
\<close>

definition groupBy :: "('a \<Rightarrow> 'k) \<Rightarrow> 'a list \<Rightarrow> ('k \<times> 'a list) list" where
  "groupBy f xs =
     map (\<lambda>k. (k, filter (\<lambda>x. f x = k) xs)) (rev (remdups (rev (map f xs))))"

record chainConfig =
  chainId :: string
  chainType :: string
  providers :: "(string \<times> string) list"

text \<open>What a handler's promise settles to: a thrown error (by its message) or the response.\<close>

datatype handlerResult = Thrown string | Returned nat

section \<open>The RRP handler (src/handlers/rrp.ts)\<close>

record keeperJob =
  chainIds :: "string list option"
  templateId :: string
  templateParameters :: "(string \<times> string \<times> string) list"
  endpointId :: string
  deviationPercentage :: jsNumber
  keeperSponsor :: string
  requestSponsor :: string

text \<open>What the chain answered to the calls made for one job, in the order they are made.\<close>

record jobResponses =
  readBeacon :: "int option goResult"
  requestedBeaconUpdateEvents :: "string list goResult"
  updatedBeaconEvents :: "string list goResult"
  requestIsAwaitingFulfillment :: "string \<Rightarrow> bool goResult"
  getGasPrice :: "gasTarget option"
  requestBeaconUpdate :: "bool"

datatype jobOutcome =
    NotForChain
  | ApiValueMissing
  | InvalidDeviationPercentage
  | ReadBeaconFailed
  | UpToDate
  | WithinThreshold
  | RequestedEventsFailed
  | UpdatedEventsFailed
  | AwaitingCheckFailed
  | AwaitingFulfillment
  | NoGasPrice
  | TemplateIdMismatch
  | ReservedTypeMissing
  | ApiRequestFailed
  | ExtractResponseFailed
  | TxSubmitted nat
  | TxFailed nat
  | ThrewTypeError

definition deriveBeaconId :: "ethersLib \<Rightarrow> keeperJob \<Rightarrow> string" where
  "deriveBeaconId lib job =
     solidityKeccak256 lib
       [Bytes32 (templateId job), Bytes (airnodeAbiEncode lib (templateParameters job))]"

text \<open>3.2.3.4: the percentage is a number in (0, 100] with at most two decimal places.\<close>

fun invalidDeviationPercentage :: "jsNumber \<Rightarrow> bool" where
  "invalidDeviationPercentage NaN = True"
| "invalidDeviationPercentage (Num p) =
     (p \<le> 0 \<or> p > 100 \<or> of_int \<lfloor>p * 100\<rfloor> \<noteq> p * 100)"

definition basisPoints :: int where
  "basisPoints = 10 ^ 16"

text \<open>3.2.3.6: \<^verbatim>\<open>delta.mul(basisPoints).mul(100).div(beaconValue)\<close>, zero read as one.\<close>

definition calculateDeviation :: "int \<Rightarrow> int \<Rightarrow> int" where
  "calculateDeviation beaconValue apiValue =
     (let delta = \<bar>beaconValue - apiValue\<bar>;
          beaconValue' = (if beaconValue = 0 then 1 else beaconValue)
      in bnDiv (delta * basisPoints * 100) beaconValue')"

text \<open>3.2.3.7: \<^verbatim>\<open>basisPoints.mul(Number(deviationPercentage) * 100)\<close>, later divided by 100.\<close>

fun percentageThreshold :: "jsNumber \<Rightarrow> int" where
  "percentageThreshold NaN = 0"
| "percentageThreshold (Num p) = basisPoints * \<lfloor>p * 100\<rfloor>"

text \<open>
  3.2.3.8: the first \<^verbatim>\<open>RequestedBeaconUpdate\<close> event whose requestId no
  \<^verbatim>\<open>UpdatedBeacon\<close> event carries. Events are given by their requestId.
\<close>

definition pendingRequestedBeaconUpdateEvent :: "string list \<Rightarrow> string list \<Rightarrow> string option" where
  "pendingRequestedBeaconUpdateEvent requested updated =
     (case filter (\<lambda>rbue. \<not> list_ex (\<lambda>ub. rbue = ub) updated) requested of
        [] \<Rightarrow> None
      | e # _ \<Rightarrow> Some e)"

text \<open>3.2.3.9 and 3.2.3.10: the gas price, then the transaction under the next nonce.\<close>

definition submitBeaconUpdate :: "nat \<Rightarrow> jobResponses \<Rightarrow> jobOutcome \<times> nat" where
  "submitBeaconUpdate nextNonce r =
     (case getGasPrice r of
        None \<Rightarrow> (NoGasPrice, nextNonce)
      | Some gas \<Rightarrow>
          (let nonce = nextNonce
           in (if requestBeaconUpdate r then TxSubmitted nonce else TxFailed nonce,
               nextNonce + 1)))"

definition checkPreviousTxs :: "nat \<Rightarrow> jobResponses \<Rightarrow> jobOutcome \<times> nat" where
  "checkPreviousTxs nextNonce r =
     (case requestedBeaconUpdateEvents r of
        GoError \<Rightarrow> (RequestedEventsFailed, nextNonce)
      | GoSuccess requested \<Rightarrow>
          (case updatedBeaconEvents r of
             GoError \<Rightarrow> (UpdatedEventsFailed, nextNonce)
           | GoSuccess updated \<Rightarrow>
               (case pendingRequestedBeaconUpdateEvent requested updated of
                  None \<Rightarrow> submitBeaconUpdate nextNonce r
                | Some requestId \<Rightarrow>
                    (case requestIsAwaitingFulfillment r requestId of
                       GoError \<Rightarrow> (AwaitingCheckFailed, nextNonce)
                     | GoSuccess awaiting \<Rightarrow>
                         if awaiting then (AwaitingFulfillment, nextNonce)
                         else submitBeaconUpdate nextNonce r))))"

definition checkDeviation :: "keeperJob \<Rightarrow> int \<Rightarrow> nat \<Rightarrow> jobResponses \<Rightarrow> jobOutcome \<times> nat" where
  "checkDeviation job apiValue nextNonce r =
     (if invalidDeviationPercentage (deviationPercentage job)
      then (InvalidDeviationPercentage, nextNonce)
      else
        (case readBeacon r of
           GoError \<Rightarrow> (ReadBeaconFailed, nextNonce)
         | GoSuccess None \<Rightarrow> (ReadBeaconFailed, nextNonce)
         | GoSuccess (Some beaconValue) \<Rightarrow>
             if \<bar>beaconValue - apiValue\<bar> = 0 then (UpToDate, nextNonce)
             else if calculateDeviation beaconValue apiValue
                       \<le> bnDiv (percentageThreshold (deviationPercentage job)) 100
             then (WithinThreshold, nextNonce)
             else checkPreviousTxs nextNonce r))"

text \<open>
  One iteration of the loop over a keeper sponsor's jobs. The cache is
  \<^verbatim>\<open>logsAndApiValuesByBeaconId\<close>: a beaconId it does not hold makes
  \<^verbatim>\<open>logsAndApiValuesByBeaconId[beaconId].apiValue\<close> read a property of \<^verbatim>\<open>undefined\<close>,
  which throws.
\<close>

definition rrpJobStep ::
  "ethersLib \<Rightarrow> string \<Rightarrow> (string \<rightharpoonup> int option) \<Rightarrow> nat \<Rightarrow> keeperJob \<Rightarrow> jobResponses
     \<Rightarrow> jobOutcome \<times> nat" where
  "rrpJobStep lib chain cache nextNonce job r =
     (if (case chainIds job of None \<Rightarrow> False | Some cs \<Rightarrow> chain \<notin> set cs)
      then (NotForChain, nextNonce)
      else
        (case cache (deriveBeaconId lib job) of
           None \<Rightarrow> (ThrewTypeError, nextNonce)
         | Some None \<Rightarrow> (ApiValueMissing, nextNonce)
         | Some (Some apiValue) \<Rightarrow> checkDeviation job apiValue nextNonce r))"

text \<open>
  The loop \<^verbatim>\<open>for (const job of rrpBeaconServerKeeperJobs)\<close>: a \<^verbatim>\<open>continue\<close> goes on
  with the next job, an exception leaves the loop.
\<close>

fun processKeeperJobs ::
  "ethersLib \<Rightarrow> string \<Rightarrow> (string \<rightharpoonup> int option) \<Rightarrow> nat \<Rightarrow> (keeperJob \<times> jobResponses) list
     \<Rightarrow> jobOutcome list" where
  "processKeeperJobs lib chain cache nextNonce [] = []"
| "processKeeperJobs lib chain cache nextNonce ((job, r) # rest) =
     (let step = rrpJobStep lib chain cache nextNonce job r
      in if fst step = ThrewTypeError then [ThrewTypeError]
         else fst step # processKeeperJobs lib chain cache (snd step) rest)"


subsection \<open>The handler around the loop\<close>

record rrpConfig =
  chains :: "chainConfig list"
  rrpBeaconServerKeeperJobs :: "keeperJob list"
  endpoints :: "string \<rightharpoonup> (string \<times> string)"
  airnodeWalletMnemonic :: string
  airnodeXpub :: "string option"
  airkeeperAirnodeAddress :: "string option"

text \<open>
  What the API and the chains answer during one invocation: the API call of a job, the
  block number of a provider (by chain id and provider name), the transaction count of a
  wallet at a block, and the calls made for a job on a provider.
\<close>

record rrpEnv =
  callApi :: "keeperJob \<Rightarrow> int option goResult"
  getBlockNumber :: "string \<Rightarrow> string \<Rightarrow> nat goResult"
  getTransactionCount :: "string \<Rightarrow> string \<Rightarrow> string \<Rightarrow> nat \<Rightarrow> nat goResult"
  jobCalls :: "string \<Rightarrow> string \<Rightarrow> keeperJob \<Rightarrow> jobResponses"

definition rrpAirnodeAddress :: "ethersLib \<Rightarrow> rrpConfig \<Rightarrow> string" where
  "rrpAirnodeAddress lib config =
     (case airnodeXpub config of
        Some xpub \<Rightarrow> if xpub \<noteq> [] then addressFromXpub lib xpub
                     else addressFromMnemonic lib (airnodeWalletMnemonic config)
      | None \<Rightarrow> addressFromMnemonic lib (airnodeWalletMnemonic config))"

text \<open>
  Step 2, the function given to \<^verbatim>\<open>retryGo\<close> for one job. Destructuring
  \<^verbatim>\<open>endpoints[endpointId]\<close> throws when the endpoint is not configured, and a rejected
  API call rejects the function: both end as \<^verbatim>\<open>[err, null]\<close>. A mismatch of the
  endpointId or the templateId resolves to a null value under the job's beaconId.
\<close>

definition apiValuePromise ::
  "ethersLib \<Rightarrow> rrpEnv \<Rightarrow> rrpConfig \<Rightarrow> keeperJob \<Rightarrow> (string \<times> int option) goResult" where
  "apiValuePromise lib env config job =
     (case endpoints config (endpointId job) of
        None \<Rightarrow> GoError
      | Some (oisTitle, endpointName) \<Rightarrow>
          (let encodedParameters = airnodeAbiEncode lib (templateParameters job);
               beaconId = deriveBeaconId lib job;
               expectedEndpointId = keccak256 lib (abiEncode lib [Str oisTitle, Str endpointName])
           in if expectedEndpointId \<noteq> endpointId job then GoSuccess (beaconId, None)
              else if getExpectedTemplateId lib (rrpAirnodeAddress lib config)
                        expectedEndpointId encodedParameters \<noteq> templateId job
              then GoSuccess (beaconId, None)
              else (case callApi env job of
                      GoError \<Rightarrow> GoError
                    | GoSuccess data \<Rightarrow> GoSuccess (beaconId, data))))"

text \<open>
  \<^verbatim>\<open>responses.reduce\<close>: a response without data leaves the accumulator as it is, any
  other one sets the entry of its beaconId.
\<close>

definition logsAndApiValuesByBeaconId ::
  "(string \<times> int option) goResult list \<Rightarrow> (string \<rightharpoonup> int option)" where
  "logsAndApiValuesByBeaconId responses =
     foldl (\<lambda>acc response.
              case response of
                GoError \<Rightarrow> acc
              | GoSuccess (beaconId, apiValue) \<Rightarrow> acc(beaconId \<mapsto> apiValue))
           Map.empty responses"

text \<open>3.2: one keeper sponsor of one provider; its wallet is derived under protocol id 12345.\<close>

definition keeperSponsorTask ::
  "ethersLib \<Rightarrow> rrpEnv \<Rightarrow> rrpConfig \<Rightarrow> (string \<rightharpoonup> int option) \<Rightarrow> string \<Rightarrow> string \<Rightarrow> nat
     \<Rightarrow> string \<times> keeperJob list \<Rightarrow> jobOutcome list" where
  "keeperSponsorTask lib env config cache chain providerName currentBlock sponsorJobs =
     (let keeperSponsorWallet =
            deriveSponsorWalletFromMnemonic lib (airnodeWalletMnemonic config)
              (fst sponsorJobs) ''12345''
      in case getTransactionCount env chain providerName keeperSponsorWallet currentBlock of
           GoError \<Rightarrow> []
         | GoSuccess keeperSponsorWalletTransactionCount \<Rightarrow>
             processKeeperJobs lib chain cache keeperSponsorWalletTransactionCount
               (map (\<lambda>job. (job, jobCalls env chain providerName job)) (snd sponsorJobs)))"

text \<open>3.1: one provider of one chain; the outcomes of its keeper sponsors.\<close>

definition rrpProviderTask ::
  "ethersLib \<Rightarrow> rrpEnv \<Rightarrow> rrpConfig \<Rightarrow> (string \<rightharpoonup> int option) \<Rightarrow> string \<Rightarrow> string
     \<Rightarrow> jobOutcome list list" where
  "rrpProviderTask lib env config cache chain providerName =
     (case getBlockNumber env chain providerName of
        GoError \<Rightarrow> []
      | GoSuccess currentBlock \<Rightarrow>
          map (keeperSponsorTask lib env config cache chain providerName currentBlock)
              (groupBy keeperSponsor (rrpBeaconServerKeeperJobs config)))"

definition rrpKeeperTasks :: "ethersLib \<Rightarrow> rrpEnv \<Rightarrow> rrpConfig \<Rightarrow> jobOutcome list list" where
  "rrpKeeperTasks lib env config =
     (let cache = logsAndApiValuesByBeaconId
                    (map (apiValuePromise lib env config) (rrpBeaconServerKeeperJobs config));
          evmChains = filter (\<lambda>chain. chainType chain = ''evm'') (chains config)
      in concat (map (\<lambda>chain.
                   concat (map (\<lambda>provider.
                             rrpProviderTask lib env config cache (chainId chain) (fst provider))
                           (providers chain)))
                 evmChains))"

text \<open>
  The handler: an exception of one sponsor's task rejects \<^verbatim>\<open>Promise.all\<close> and with it
  the handler; otherwise the response with status code 200 is returned.
\<close>

definition rrpHandler :: "ethersLib \<Rightarrow> rrpEnv \<Rightarrow> rrpConfig \<Rightarrow> handlerResult" where
  "rrpHandler lib env config =
     (if (case airkeeperAirnodeAddress config of
            None \<Rightarrow> False
          | Some a \<Rightarrow> a \<noteq> [] \<and> a \<noteq> rrpAirnodeAddress lib config)
      then Thrown ''xpub does not belong to Airnode''
      else if filter (\<lambda>chain. chainType chain = ''evm'') (chains config) = []
      then Thrown ''One or more evm compatible chain(s) must be defined in the provided config''
      else if list_ex (\<lambda>outcomes. ThrewTypeError \<in> set outcomes) (rrpKeeperTasks lib env config)
      then Thrown ''TypeError''
      else Returned 200)"

section \<open>The first keeper handler (handler.ts)\<close>

record legacyKeeperJob =
  legacyTemplateId :: string
  overrideParameters :: "(string \<times> string \<times> string) list"
  legacyTemplateParameters :: "(string \<times> string \<times> string) list"
  oisTitle :: string
  endpointName :: string
  legacyDeviationPercentage :: jsNumber
  legacyKeeperSponsor :: string
  legacyRequestSponsor :: string

text \<open>
  Besides the chain's answers, a job of this handler gets the answers of its own API call:
  whether the reserved parameter \<^verbatim>\<open>_type\<close> is there (or the library threw), the
  response (a failed request; a response whose value cannot be extracted; a value), and
  the number of retries of the transaction.
\<close>

record legacyJobResponses = jobResponses +
  reservedParametersType :: "bool goResult"
  apiRequest :: "int option goResult"
  requestBeaconUpdateRetries :: nat

record legacyConfig =
  legacyChains :: "chainConfig list"
  legacyJobs :: "legacyKeeperJob list"
  legacyOis :: "(string \<times> string list) list"
  legacyMnemonic :: string

record legacyEnv =
  legacyBlockNumber :: "string \<Rightarrow> string \<Rightarrow> nat goResult"
  legacyTransactionCount :: "string \<Rightarrow> string \<Rightarrow> string \<Rightarrow> nat \<Rightarrow> nat goResult"
  legacyJobCalls :: "string \<Rightarrow> string \<Rightarrow> legacyKeeperJob \<Rightarrow> legacyJobResponses"

text \<open>
  The transaction: \<^verbatim>\<open>nonce: nonce++\<close> stands inside the function given to
  \<^verbatim>\<open>retryGo\<close>, so every attempt takes the next nonce.
\<close>

definition legacySubmit :: "nat \<Rightarrow> legacyJobResponses \<Rightarrow> jobOutcome list \<times> nat" where
  "legacySubmit nonce r =
     (case getGasPrice r of
        None \<Rightarrow> ([NoGasPrice], nonce)
      | Some gas \<Rightarrow>
          (let retries = requestBeaconUpdateRetries r
           in (map TxFailed [nonce ..< nonce + retries]
                 @ [if requestBeaconUpdate r then TxSubmitted (nonce + retries)
                    else TxFailed (nonce + retries)],
               nonce + Suc retries)))"

definition legacyCheckPreviousTxs :: "nat \<Rightarrow> legacyJobResponses \<Rightarrow> jobOutcome list \<times> nat" where
  "legacyCheckPreviousTxs nonce r =
     (case requestedBeaconUpdateEvents r of
        GoError \<Rightarrow> ([RequestedEventsFailed], nonce)
      | GoSuccess requested \<Rightarrow>
          (case updatedBeaconEvents r of
             GoError \<Rightarrow> ([UpdatedEventsFailed], nonce)
           | GoSuccess updated \<Rightarrow>
               (case pendingRequestedBeaconUpdateEvent requested updated of
                  None \<Rightarrow> legacySubmit nonce r
                | Some requestId \<Rightarrow>
                    (case requestIsAwaitingFulfillment r requestId of
                       GoError \<Rightarrow> ([AwaitingCheckFailed], nonce)
                     | GoSuccess awaiting \<Rightarrow>
                         if awaiting then ([AwaitingFulfillment], nonce)
                         else legacySubmit nonce r))))"

text \<open>Steps 6 and 7: the deviation of the API value from the beacon value.\<close>

definition legacyCheckDeviation ::
  "legacyKeeperJob \<Rightarrow> int \<Rightarrow> int \<Rightarrow> nat \<Rightarrow> legacyJobResponses \<Rightarrow> jobOutcome list \<times> nat" where
  "legacyCheckDeviation job beaconValue apiValue nonce r =
     (if \<bar>beaconValue - apiValue\<bar> = 0 then ([UpToDate], nonce)
      else if calculateDeviation beaconValue apiValue
                \<le> bnDiv (percentageThreshold (legacyDeviationPercentage job)) 100
      then ([WithinThreshold], nonce)
      else legacyCheckPreviousTxs nonce r)"

text \<open>
  Step 5: \<^verbatim>\<open>oises.find(...)!\<close> is \<^verbatim>\<open>undefined\<close> when no OIS has the job's title, and
  reading its \<^verbatim>\<open>endpoints\<close> throws.
\<close>

definition legacyApiCall ::
  "legacyConfig \<Rightarrow> legacyKeeperJob \<Rightarrow> int \<Rightarrow> nat \<Rightarrow> legacyJobResponses \<Rightarrow> jobOutcome list \<times> nat" where
  "legacyApiCall config job beaconValue nonce r =
     (case find (\<lambda>configOis. fst configOis = oisTitle job) (legacyOis config) of
        None \<Rightarrow> ([ThrewTypeError], nonce)
      | Some configOis \<Rightarrow>
          (case reservedParametersType r of
             GoError \<Rightarrow> ([ThrewTypeError], nonce)
           | GoSuccess hasType \<Rightarrow>
               if \<not> hasType then ([ReservedTypeMissing], nonce)
               else
                 (case apiRequest r of
                    GoError \<Rightarrow> ([ApiRequestFailed], nonce)
                  | GoSuccess None \<Rightarrow> ([ExtractResponseFailed], nonce)
                  | GoSuccess (Some apiValue) \<Rightarrow>
                      legacyCheckDeviation job beaconValue apiValue nonce r)))"

definition legacyJobStep ::
  "ethersLib \<Rightarrow> legacyConfig \<Rightarrow> nat \<Rightarrow> legacyKeeperJob \<Rightarrow> legacyJobResponses
     \<Rightarrow> jobOutcome list \<times> nat" where
  "legacyJobStep lib config nonce job r =
     (if invalidDeviationPercentage (legacyDeviationPercentage job)
      then ([InvalidDeviationPercentage], nonce)
      else if getExpectedTemplateId lib (addressFromMnemonic lib (legacyMnemonic config))
                (keccak256 lib (abiEncode lib [Str (oisTitle job), Str (endpointName job)]))
                (airnodeAbiEncode lib (legacyTemplateParameters job))
              \<noteq> legacyTemplateId job
      then ([TemplateIdMismatch], nonce)
      else
        (case readBeacon r of
           GoError \<Rightarrow> ([ReadBeaconFailed], nonce)
         | GoSuccess None \<Rightarrow> ([ReadBeaconFailed], nonce)
         | GoSuccess (Some beaconValue) \<Rightarrow> legacyApiCall config job beaconValue nonce r))"

fun legacyProcessJobs ::
  "ethersLib \<Rightarrow> legacyConfig \<Rightarrow> nat \<Rightarrow> (legacyKeeperJob \<times> legacyJobResponses) list
     \<Rightarrow> jobOutcome list" where
  "legacyProcessJobs lib config nonce [] = []"
| "legacyProcessJobs lib config nonce ((job, r) # rest) =
     (let step = legacyJobStep lib config nonce job r
      in if fst step = [ThrewTypeError] then [ThrewTypeError]
         else fst step @ legacyProcessJobs lib config (snd step) rest)"

definition legacySponsorTask ::
  "ethersLib \<Rightarrow> legacyEnv \<Rightarrow> legacyConfig \<Rightarrow> string \<Rightarrow> string \<Rightarrow> nat
     \<Rightarrow> string \<times> legacyKeeperJob list \<Rightarrow> jobOutcome list" where
  "legacySponsorTask lib env config chain provider block sponsorJobs =
     (let keeperSponsorWallet =
            deriveKeeperSponsorWallet lib (legacyMnemonic config) (fst sponsorJobs)
      in case legacyTransactionCount env chain provider keeperSponsorWallet block of
           GoError \<Rightarrow> []
         | GoSuccess keeperSponsorWalletTransactionCount \<Rightarrow>
             legacyProcessJobs lib config keeperSponsorWalletTransactionCount
               (map (\<lambda>job. (job, legacyJobCalls env chain provider job)) (snd sponsorJobs)))"

definition legacyProviderTask ::
  "ethersLib \<Rightarrow> legacyEnv \<Rightarrow> legacyConfig \<Rightarrow> string \<Rightarrow> string \<Rightarrow> jobOutcome list list" where
  "legacyProviderTask lib env config chain provider =
     (case legacyBlockNumber env chain provider of
        GoError \<Rightarrow> []
      | GoSuccess block \<Rightarrow>
          map (legacySponsorTask lib env config chain provider block)
              (groupBy legacyKeeperSponsor (legacyJobs config)))"

definition legacyTasks :: "ethersLib \<Rightarrow> legacyEnv \<Rightarrow> legacyConfig \<Rightarrow> jobOutcome list list" where
  "legacyTasks lib env config =
     (let evmChains = filter (\<lambda>chain. chainType chain = ''evm'') (legacyChains config)
      in concat (map (\<lambda>chain.
                   concat (map (\<lambda>provider.
                             legacyProviderTask lib env config (chainId chain) (fst provider))
                           (providers chain)))
                 evmChains))"

text \<open>
  The handler on the merged configuration. The guard before the providers tests
  \<^verbatim>\<open>isEmpty(chains)\<close>, the list of all chains.
\<close>

definition legacyHandler :: "ethersLib \<Rightarrow> legacyEnv \<Rightarrow> legacyConfig \<Rightarrow> handlerResult" where
  "legacyHandler lib env config =
     (if legacyChains config = []
      then Thrown ''One or more evm compatible chain(s) must be defined in the provided config''
      else if list_ex (\<lambda>outcomes. ThrewTypeError \<in> set outcomes) (legacyTasks lib env config)
      then Thrown ''TypeError''
      else Returned 200)"

section \<open>The PSP handler in one function (src/psp.ts)\<close>

record subscription =
  subscriptionChainId :: string
  airnodeAddress :: string
  subscriptionTemplateId :: string
  parameters :: string
  conditions :: string
  relayer :: string
  sponsor :: string
  requester :: string
  fulfillFunctionId :: string

text \<open>\<^verbatim>\<open>{ id: subscriptionId, ...subscription }\<close>\<close>

record idSubscription =
  subscriptionId :: string
  details :: subscription

record template =
  templateEndpointId :: string
  encodedTemplateParameters :: string

record pspConfig =
  pspChains :: "chainConfig list"
  protoPsp :: "string list"
  subscriptions :: "string \<rightharpoonup> subscription"
  templates :: "string \<rightharpoonup> template"
  pspEndpoints :: "string \<rightharpoonup> (string \<times> string)"
  pspMnemonic :: string

text \<open>The nine fields a subscriptionId is derived from, in the order and with the types of the source.\<close>

definition subscriptionFields :: "subscription \<Rightarrow> abiValue list" where
  "subscriptionFields s =
     [Uint256 (subscriptionChainId s), Address (airnodeAddress s),
      Bytes32 (subscriptionTemplateId s), Bytes (parameters s), Bytes (conditions s),
      Address (relayer s), Address (sponsor s), Address (requester s),
      Bytes4 (fulfillFunctionId s)]"

text \<open>
  \<^verbatim>\<open>triggers['proto-psp'].forEach\<close>: a subscription that is not configured, or whose id
  is not \<^verbatim>\<open>solidityKeccak256\<close> of its fields, is left out with a warning.
\<close>

fun protoSubscriptions :: "ethersLib \<Rightarrow> (string \<rightharpoonup> subscription) \<Rightarrow> string list \<Rightarrow> idSubscription list" where
  "protoSubscriptions lib subs [] = []"
| "protoSubscriptions lib subs (sid # sids) =
     (case subs sid of
        None \<Rightarrow> protoSubscriptions lib subs sids
      | Some s \<Rightarrow>
          if sid \<noteq> solidityKeccak256 lib (subscriptionFields s)
          then protoSubscriptions lib subs sids
          else \<lparr>subscriptionId = sid, details = s\<rparr> # protoSubscriptions lib subs sids)"

text \<open>
  What the API and the chain answered for one subscription. The fulfillment is given by
  the number of retries \<^verbatim>\<open>retryGo\<close> made and whether the last attempt succeeded: the
  function it is given is evaluated once per attempt.
\<close>

record subscriptionResponses =
  readApiValue :: "int option goResult"
  conditionCall :: "bool goResult"
  pspGasPrice :: "gasTarget option"
  fulfillPspBeaconUpdate :: "nat \<times> bool"

datatype subscriptionOutcome =
    TemplateNotFound
  | ApiCallFailed
  | ApiValueNotFound
  | DecodeConditionsFailed
  | ConditionsNotMet
  | GasPriceFailed
  | Fulfill "nat list" bool
  | ConditionCallThrew

text \<open>
  One iteration of the loop over a sponsor's subscriptions.
  \<^verbatim>\<open>const [err, [conditionsMet]] = await retryGo(...)\<close> destructures the data of the
  condition call before \<^verbatim>\<open>err\<close> is looked at: when the call failed the data is nil,
  and destructuring nil throws a TypeError.
  \<^verbatim>\<open>nonce: nonce++\<close> stands inside the function given to \<^verbatim>\<open>retryGo\<close>: every
  attempt takes the next nonce.
\<close>

definition pspSubscriptionStep ::
  "ethersLib \<Rightarrow> (string \<rightharpoonup> template) \<Rightarrow> nat \<Rightarrow> idSubscription \<Rightarrow> subscriptionResponses
     \<Rightarrow> subscriptionOutcome \<times> nat" where
  "pspSubscriptionStep lib tpls nonce s r =
     (case tpls (subscriptionTemplateId (details s)) of
        None \<Rightarrow> (TemplateNotFound, nonce)
      | Some tpl \<Rightarrow>
          (case readApiValue r of
             GoError \<Rightarrow> (ApiCallFailed, nonce)
           | GoSuccess None \<Rightarrow> (ApiValueNotFound, nonce)
           | GoSuccess (Some apiValue) \<Rightarrow>
               (case decodeConditions lib (conditions (details s)) of
                  None \<Rightarrow> (DecodeConditionsFailed, nonce)
                | Some conditionFunction \<Rightarrow>
                    (case conditionCall r of
                       GoError \<Rightarrow> (ConditionCallThrew, nonce)
                     | GoSuccess conditionsMet \<Rightarrow>
                         if \<not> conditionsMet then (ConditionsNotMet, nonce)
                         else
                           (case pspGasPrice r of
                              None \<Rightarrow> (GasPriceFailed, nonce)
                            | Some gas \<Rightarrow>
                                (let attempts = Suc (fst (fulfillPspBeaconUpdate r))
                                 in (Fulfill [nonce ..< nonce + attempts]
                                       (snd (fulfillPspBeaconUpdate r)),
                                     nonce + attempts)))))))"

fun processSubscriptions ::
  "ethersLib \<Rightarrow> (string \<rightharpoonup> template) \<Rightarrow> nat \<Rightarrow> (idSubscription \<times> subscriptionResponses) list
     \<Rightarrow> subscriptionOutcome list" where
  "processSubscriptions lib tpls nonce [] = []"
| "processSubscriptions lib tpls nonce ((s, r) # rest) =
     (let step = pspSubscriptionStep lib tpls nonce s r
      in if fst step = ConditionCallThrew then [ConditionCallThrew]
         else fst step # processSubscriptions lib tpls (snd step) rest)"

record pspEnv =
  pspBlockNumber :: "string \<Rightarrow> string \<Rightarrow> nat goResult"
  pspTransactionCount :: "string \<Rightarrow> string \<Rightarrow> string \<Rightarrow> nat \<Rightarrow> nat goResult"
  subscriptionCalls :: "string \<Rightarrow> string \<Rightarrow> idSubscription \<Rightarrow> subscriptionResponses"

text \<open>The sponsor wallet of \<^verbatim>\<open>beaconUpdate\<close>: derived under protocol id 3.\<close>

definition beaconUpdateSponsorWallet :: "ethersLib \<Rightarrow> string \<Rightarrow> string \<Rightarrow> string" where
  "beaconUpdateSponsorWallet lib mnemonic sponsorAddress =
     deriveSponsorWallet lib mnemonic sponsorAddress ''3''"

definition beaconUpdateSponsorTask ::
  "ethersLib \<Rightarrow> pspEnv \<Rightarrow> pspConfig \<Rightarrow> string \<Rightarrow> string \<Rightarrow> nat
     \<Rightarrow> string \<times> idSubscription list \<Rightarrow> subscriptionOutcome list" where
  "beaconUpdateSponsorTask lib env config chain providerName currentBlock sponsorSubscriptions =
     (let sponsorWallet =
            beaconUpdateSponsorWallet lib (pspMnemonic config) (fst sponsorSubscriptions)
      in case pspTransactionCount env chain providerName sponsorWallet currentBlock of
           GoError \<Rightarrow> []
         | GoSuccess sponsorWalletTransactionCount \<Rightarrow>
             processSubscriptions lib (templates config) sponsorWalletTransactionCount
               (map (\<lambda>s. (s, subscriptionCalls env chain providerName s))
                    (snd sponsorSubscriptions)))"

definition beaconUpdateProviderTask ::
  "ethersLib \<Rightarrow> pspEnv \<Rightarrow> pspConfig \<Rightarrow> string \<Rightarrow> string \<Rightarrow> subscriptionOutcome list list" where
  "beaconUpdateProviderTask lib env config chain providerName =
     (case pspBlockNumber env chain providerName of
        GoError \<Rightarrow> []
      | GoSuccess currentBlock \<Rightarrow>
          (let subs = protoSubscriptions lib (subscriptions config) (protoPsp config)
           in if subs = [] then []
              else map (beaconUpdateSponsorTask lib env config chain providerName currentBlock)
                       (groupBy (\<lambda>s. sponsor (details s)) subs)))"

definition beaconUpdateTasks :: "ethersLib \<Rightarrow> pspEnv \<Rightarrow> pspConfig \<Rightarrow> subscriptionOutcome list list" where
  "beaconUpdateTasks lib env config =
     (let evmChains = filter (\<lambda>chain. chainType chain = ''evm'') (pspChains config)
      in concat (map (\<lambda>chain.
                   concat (map (\<lambda>provider.
                             beaconUpdateProviderTask lib env config (chainId chain) (fst provider))
                           (providers chain)))
                 evmChains))"

text \<open>
  \<^verbatim>\<open>beaconUpdate\<close> from step 2 on, on the merged configuration. The guard before the
  providers tests \<^verbatim>\<open>isEmpty(chains)\<close>, the list of all chains.
\<close>

definition beaconUpdate :: "ethersLib \<Rightarrow> pspEnv \<Rightarrow> pspConfig \<Rightarrow> handlerResult" where
  "beaconUpdate lib env config =
     (if pspChains config = []
      then Thrown ''One or more evm compatible chain(s) must be defined in the provided config''
      else if list_ex (\<lambda>outcomes. ConditionCallThrew \<in> set outcomes)
                (beaconUpdateTasks lib env config)
      then Thrown ''TypeError''
      else Returned 200)"

section \<open>The sponsor wallet and its transaction count (evm/transaction-count.ts)\<close>



text \<open>
  The later versions call \<^verbatim>\<open>node.evm.deriveSponsorWalletFromMnemonic\<close> with the literal
  \<^verbatim>\<open>'2'\<close>.
\<close>

definition getSponsorWalletAndTransactionCount ::
  "ethersLib \<Rightarrow> (string \<Rightarrow> nat \<Rightarrow> nat goResult) \<Rightarrow> string \<Rightarrow> nat \<Rightarrow> string
     \<Rightarrow> (string \<times> nat) option" where
  "getSponsorWalletAndTransactionCount lib providerTransactionCount mnemonic currentBlock
       sponsorAddress =
     (let sponsorWallet = deriveSponsorWalletFromMnemonic lib mnemonic sponsorAddress ''2''
      in case providerTransactionCount sponsorWallet currentBlock of
           GoError \<Rightarrow> None
         | GoSuccess transactionCount \<Rightarrow> Some (sponsorWallet, transactionCount))"

section \<open>The PSP handler in four phases (handlers/psp.ts)\<close>

subsection \<open>Phase 1: initializeState\<close>

text \<open>
  \<^verbatim>\<open>triggers.protoPsp.reduce\<close>: a subscription that is not configured, or whose id is
  not \<^verbatim>\<open>keccak256(defaultAbiCoder.encode(...))\<close> of its fields, is left out with a warning.
\<close>

fun enabledSubscriptions :: "ethersLib \<Rightarrow> (string \<rightharpoonup> subscription) \<Rightarrow> string list \<Rightarrow> idSubscription list" where
  "enabledSubscriptions lib subs [] = []"
| "enabledSubscriptions lib subs (sid # sids) =
     (case subs sid of
        None \<Rightarrow> enabledSubscriptions lib subs sids
      | Some s \<Rightarrow>
          if sid \<noteq> keccak256 lib (abiEncode lib (subscriptionFields s))
          then enabledSubscriptions lib subs sids
          else \<lparr>subscriptionId = sid, details = s\<rparr> # enabledSubscriptions lib subs sids)"

record groupedSubscriptions =
  groupSubscriptions :: "idSubscription list"
  groupTemplateId :: string
  groupTemplate :: template
  groupEndpoint :: "string \<times> string"

text \<open>
  The reduce over the template ids of the enabled subscriptions: the template and its
  endpoint must be configured and carry the ids derived from them.
\<close>

fun groupedSubscriptionsOf ::
  "ethersLib \<Rightarrow> pspConfig \<Rightarrow> (string \<times> idSubscription list) list \<Rightarrow> groupedSubscriptions list" where
  "groupedSubscriptionsOf lib config [] = []"
| "groupedSubscriptionsOf lib config ((tid, subs) # rest) =
     (case templates config tid of
        None \<Rightarrow> groupedSubscriptionsOf lib config rest
      | Some tpl \<Rightarrow>
          if solidityKeccak256 lib
               [Bytes32 (templateEndpointId tpl), Bytes (encodedTemplateParameters tpl)] \<noteq> tid
          then groupedSubscriptionsOf lib config rest
          else
            (case pspEndpoints config (templateEndpointId tpl) of
               None \<Rightarrow> groupedSubscriptionsOf lib config rest
             | Some endpoint \<Rightarrow>
                 if keccak256 lib (abiEncode lib [Str (fst endpoint), Str (snd endpoint)])
                      \<noteq> templateEndpointId tpl
                 then groupedSubscriptionsOf lib config rest
                 else \<lparr>groupSubscriptions = subs, groupTemplateId = tid, groupTemplate = tpl,
                       groupEndpoint = endpoint\<rparr>
                      # groupedSubscriptionsOf lib config rest))"

definition initializeState :: "ethersLib \<Rightarrow> pspConfig \<Rightarrow> groupedSubscriptions list" where
  "initializeState lib config =
     groupedSubscriptionsOf lib config
       (groupBy (\<lambda>s. subscriptionTemplateId (details s))
          (enabledSubscriptions lib (subscriptions config) (protoPsp config)))"

subsection \<open>Phase 2: executeApiCalls\<close>

text \<open>
  One API call per group, wrapped in \<^verbatim>\<open>go\<close> with one retry; its result is given. The
  reduce over the responses: a failed call or a null value leaves the accumulator as it
  is, a value is entered under the id of every subscription of the group.
\<close>

definition executeApiCalls ::
  "(groupedSubscriptions \<Rightarrow> int option goResult) \<Rightarrow> groupedSubscriptions list \<Rightarrow> (string \<rightharpoonup> int)" where
  "executeApiCalls groupCallApi groups =
     foldl (\<lambda>acc g.
              case groupCallApi g of
                GoError \<Rightarrow> acc
              | GoSuccess None \<Rightarrow> acc
              | GoSuccess (Some apiValue) \<Rightarrow>
                  foldl (\<lambda>acc2 s. acc2(subscriptionId s \<mapsto> apiValue)) acc (groupSubscriptions g))
           Map.empty groups"

subsection \<open>Phase 3: initializeProviders\<close>

record providerState =
  providerChainId :: string
  providerName :: string
  currentBlock :: nat
  providerGasTarget :: gasTarget

record phasedEnv =
  groupCallApi :: "groupedSubscriptions \<Rightarrow> int option goResult"
  initializeProvider :: "string \<Rightarrow> string \<Rightarrow> (nat \<times> gasTarget) option"
  checkSubscriptionCondition :: "string \<Rightarrow> string \<Rightarrow> idSubscription \<Rightarrow> int option \<Rightarrow> bool"
  sponsorTransactionCount :: "string \<Rightarrow> string \<Rightarrow> string \<Rightarrow> nat \<Rightarrow> nat goResult"

definition initializeProviders :: "phasedEnv \<Rightarrow> pspConfig \<Rightarrow> string + providerState list" where
  "initializeProviders env config =
     (let evmChains = filter (\<lambda>chain. chainType chain = ''evm'') (pspChains config)
      in if evmChains = []
         then Inl ''One or more evm compatible chains must be defined in the provided config''
         else Inr (concat (map (\<lambda>chain.
                     concat (map (\<lambda>provider.
                               case initializeProvider env (chainId chain) (fst provider) of
                                 None \<Rightarrow> []
                               | Some evmProviderState \<Rightarrow>
                                   [\<lparr>providerChainId = chainId chain, providerName = fst provider,
                                     currentBlock = fst evmProviderState,
                                     providerGasTarget = snd evmProviderState\<rparr>])
                             (providers chain)))
                   evmChains)))"

subsection \<open>Phase 4: submitTransactions\<close>

record checkedSubscription =
  checked :: idSubscription
  apiValue :: "int option"

text \<open>
  \<^verbatim>\<open>checkSubscriptionCondition\<close> (evm/check-conditions) answers whether the condition of
  a subscription holds for its API value; its answer is given. Only the subscriptions it
  finds valid are kept.
\<close>

definition checkSubscriptionsConditions ::
  "(idSubscription \<Rightarrow> int option \<Rightarrow> bool) \<Rightarrow> idSubscription list \<Rightarrow> (string \<rightharpoonup> int)
     \<Rightarrow> checkedSubscription list" where
  "checkSubscriptionsConditions isValid subs apiValuesBySubscriptionId =
     map (\<lambda>s. \<lparr>checked = s, apiValue = apiValuesBySubscriptionId (subscriptionId s)\<rparr>)
         (filter (\<lambda>s. isValid s (apiValuesBySubscriptionId (subscriptionId s))) subs)"

record noncedSubscription =
  checkedSubscription :: checkedSubscription
  nonce :: nat

record sponsorWalletWithSubscriptions =
  walletSubscriptions :: "noncedSubscription list"
  sponsorWallet :: string

text \<open>
  A sponsor whose wallet or transaction count could not be fetched is left out; the
  others get their subscriptions with the nonce \<^verbatim>\<open>transactionCount + idx\<close>.
\<close>

fun groupSubscriptionsBySponsorWallet ::
  "ethersLib \<Rightarrow> (string \<Rightarrow> nat \<Rightarrow> nat goResult) \<Rightarrow> string \<Rightarrow> nat
     \<Rightarrow> (string \<times> checkedSubscription list) list \<Rightarrow> sponsorWalletWithSubscriptions list" where
  "groupSubscriptionsBySponsorWallet lib providerTransactionCount mnemonic block [] = []"
| "groupSubscriptionsBySponsorWallet lib providerTransactionCount mnemonic block
       ((sponsorAddress, subs) # rest) =
     (case getSponsorWalletAndTransactionCount lib providerTransactionCount mnemonic block
             sponsorAddress of
        None \<Rightarrow> groupSubscriptionsBySponsorWallet lib providerTransactionCount mnemonic block rest
      | Some (wallet, transactionCount) \<Rightarrow>
          \<lparr>walletSubscriptions =
              map (\<lambda>(idx, s). \<lparr>checkedSubscription = s, nonce = transactionCount + idx\<rparr>)
                  (List.enumerate 0 subs),
            sponsorWallet = wallet\<rparr>
          # groupSubscriptionsBySponsorWallet lib providerTransactionCount mnemonic block rest)"

text \<open>The subscriptions of one provider that reach the condition check.\<close>

definition chainSubscriptions ::
  "groupedSubscriptions list \<Rightarrow> (string \<rightharpoonup> int) \<Rightarrow> string \<Rightarrow> idSubscription list" where
  "chainSubscriptions groups apiValuesBySubscriptionId chain =
     filter (\<lambda>s. subscriptionChainId (details s) = chain
                  \<and> apiValuesBySubscriptionId (subscriptionId s) \<noteq> None)
            (concat (map groupSubscriptions groups))"

text \<open>
  What \<^verbatim>\<open>submitTransactions\<close> hands to \<^verbatim>\<open>processSponsorWallet\<close> for one provider:
  the sponsor wallets with their subscriptions and nonces.
\<close>

definition submitTransactions ::
  "ethersLib \<Rightarrow> phasedEnv \<Rightarrow> pspConfig \<Rightarrow> groupedSubscriptions list \<Rightarrow> (string \<rightharpoonup> int)
     \<Rightarrow> providerState \<Rightarrow> sponsorWalletWithSubscriptions list" where
  "submitTransactions lib env config groups apiValuesBySubscriptionId ps =
     (let validSubscriptions =
            checkSubscriptionsConditions
              (checkSubscriptionCondition env (providerChainId ps) (providerName ps))
              (chainSubscriptions groups apiValuesBySubscriptionId (providerChainId ps))
              apiValuesBySubscriptionId;
          subscriptionsBySponsor = groupBy (\<lambda>c. sponsor (details (checked c))) validSubscriptions
      in groupSubscriptionsBySponsorWallet lib
           (sponsorTransactionCount env (providerChainId ps) (providerName ps))
           (pspMnemonic config) (currentBlock ps) subscriptionsBySponsor)"

text \<open>
  \<^verbatim>\<open>updateBeacon\<close>: the four phases in order. The result is the error thrown by
  \<^verbatim>\<open>initializeProviders\<close>, or the sponsor wallets of every provider.
\<close>

definition updateBeacon ::
  "ethersLib \<Rightarrow> phasedEnv \<Rightarrow> pspConfig \<Rightarrow> string + sponsorWalletWithSubscriptions list list" where
  "updateBeacon lib env config =
     (let groups = initializeState lib config;
          apiValuesBySubscriptionId = executeApiCalls (groupCallApi env) groups
      in case initializeProviders env config of
           Inl err \<Rightarrow> Inl err
         | Inr providerStates \<Rightarrow>
             Inr (map (submitTransactions lib env config groups apiValuesBySubscriptionId)
                      providerStates))"

section \<open>A library for the examples\<close>

text \<open>
  The examples below need some library to run with. In this one an encoding is the text
  of its values under the name of the encoder, a hash is the text it hashes under the name
  of the hash function, and a wallet is the text of what it is derived from.
\<close>

fun showAbiValue :: "abiValue \<Rightarrow> string" where
  "showAbiValue (Uint256 v) = v"
| "showAbiValue (Address v) = v"
| "showAbiValue (Bytes32 v) = v"
| "showAbiValue (Bytes v) = v"
| "showAbiValue (Bytes4 v) = v"
| "showAbiValue (Str v) = v"

definition exampleLib :: ethersLib where
  "exampleLib =
     \<lparr>keccak256 = (\<lambda>bytes. ''keccak256('' @ bytes @ '')''),
      abiEncode = (\<lambda>vs. ''encode('' @ concat (map (\<lambda>v. showAbiValue v @ '','') vs) @ '')''),
      solidityPack = (\<lambda>vs. ''pack('' @ concat (map (\<lambda>v. showAbiValue v @ '','') vs) @ '')''),
      airnodeAbiEncode = (\<lambda>ps. concat (map (\<lambda>p. fst (snd p) @ ''='' @ snd (snd p) @ '';'') ps)),
      getExpectedTemplateId = (\<lambda>airnode endpoint ps. ''template('' @ airnode @ '','' @ endpoint @ '','' @ ps @ '')''),
      deriveSponsorWalletFromMnemonic = (\<lambda>mnemonic sponsorAddress protocolId.
         ''wallet('' @ mnemonic @ '','' @ sponsorAddress @ '','' @ protocolId @ '')''),
      deriveSponsorWallet = (\<lambda>mnemonic sponsorAddress protocolId.
         ''wallet('' @ mnemonic @ '','' @ sponsorAddress @ '','' @ protocolId @ '')''),
      addressFromMnemonic = (\<lambda>mnemonic. ''address('' @ mnemonic @ '')''),
      addressFromXpub = (\<lambda>xpub. ''address('' @ xpub @ '')''),
      decodeConditions = (\<lambda>c. if c = [] then None else Some (''conditionPspBeaconUpdate'', c)),
      deriveKeeperSponsorWallet = (\<lambda>mnemonic sponsorAddress.
         ''keeperWallet('' @ mnemonic @ '','' @ sponsorAddress @ '')'')\<rparr>"

text \<open>
  A keeper job whose endpointId and templateId are the ones the library derives, the
  answers of a chain whose beacon stands at 100 and has no events, and a configuration
  with one evm chain and one provider.
\<close>

definition exampleEndpointId :: string where
  "exampleEndpointId = keccak256 exampleLib (abiEncode exampleLib [Str ''ois'', Str ''ep''])"

definition exampleJob :: keeperJob where
  "exampleJob =
     \<lparr>chainIds = None,
      templateId = getExpectedTemplateId exampleLib (addressFromMnemonic exampleLib ''m'')
                     exampleEndpointId (airnodeAbiEncode exampleLib []),
      templateParameters = [],
      endpointId = exampleEndpointId, deviationPercentage = Num 1, keeperSponsor = ''0xs1'',
      requestSponsor = ''0xr1''\<rparr>"

definition exampleResponses :: jobResponses where
  "exampleResponses =
     \<lparr>readBeacon = GoSuccess (Some 100), requestedBeaconUpdateEvents = GoSuccess [],
      updatedBeaconEvents = GoSuccess [],
      requestIsAwaitingFulfillment = (\<lambda>requestId. GoSuccess False),
      getGasPrice = Some (LegacyGas 1), requestBeaconUpdate = True\<rparr>"

definition exampleChain :: chainConfig where
  "exampleChain = \<lparr>chainId = ''1'', chainType = ''evm'', providers = [(''p'', ''url'')]\<rparr>"

definition exampleRrpConfig :: rrpConfig where
  "exampleRrpConfig =
     \<lparr>chains = [exampleChain], rrpBeaconServerKeeperJobs = [exampleJob, exampleJob],
      endpoints = [exampleEndpointId \<mapsto> (''ois'', ''ep'')], airnodeWalletMnemonic = ''m'',
      airnodeXpub = None, airkeeperAirnodeAddress = None\<rparr>"

definition exampleRrpEnv :: rrpEnv where
  "exampleRrpEnv =
     \<lparr>callApi = (\<lambda>job. GoSuccess (Some 102)),
      getBlockNumber = (\<lambda>chain provider. GoSuccess 1000),
      getTransactionCount = (\<lambda>chain provider wallet block. GoSuccess 7),
      jobCalls = (\<lambda>chain provider job. exampleResponses)\<rparr>"

text \<open>
  A subscription with the two ids the handlers derive from it (packed and ABI-encoded),
  its template, and the answers of an API and a chain that let it through.
\<close>

definition exampleTemplate :: template where
  "exampleTemplate = \<lparr>templateEndpointId = exampleEndpointId, encodedTemplateParameters = ''0xp''\<rparr>"

definition exampleTemplateId :: string where
  "exampleTemplateId =
     solidityKeccak256 exampleLib [Bytes32 exampleEndpointId, Bytes ''0xp'']"

definition exampleSubscription :: subscription where
  "exampleSubscription =
     \<lparr>subscriptionChainId = ''1'', airnodeAddress = ''0xa'',
      subscriptionTemplateId = exampleTemplateId, parameters = ''0x'', conditions = ''0xc'',
      relayer = ''0xa'', sponsor = ''0xs1'', requester = ''0xq'', fulfillFunctionId = ''0xf''\<rparr>"

definition examplePackedId :: string where
  "examplePackedId = solidityKeccak256 exampleLib (subscriptionFields exampleSubscription)"

definition exampleEncodedId :: string where
  "exampleEncodedId = keccak256 exampleLib (abiEncode exampleLib (subscriptionFields exampleSubscription))"

definition exampleSubscriptionResponses :: subscriptionResponses where
  "exampleSubscriptionResponses =
     \<lparr>readApiValue = GoSuccess (Some 102), conditionCall = GoSuccess True,
      pspGasPrice = Some (LegacyGas 1), fulfillPspBeaconUpdate = (0, True)\<rparr>"

definition examplePspConfig :: pspConfig where
  "examplePspConfig =
     \<lparr>pspChains = [exampleChain], protoPsp = [examplePackedId],
      subscriptions = [examplePackedId \<mapsto> exampleSubscription],
      templates = [exampleTemplateId \<mapsto> exampleTemplate],
      pspEndpoints = [exampleEndpointId \<mapsto> (''ois'', ''ep'')], pspMnemonic = ''m''\<rparr>"

definition examplePspEnv :: pspEnv where
  "examplePspEnv =
     \<lparr>pspBlockNumber = (\<lambda>chain provider. GoSuccess 1000),
      pspTransactionCount = (\<lambda>chain provider wallet block. GoSuccess 7),
      subscriptionCalls = (\<lambda>chain provider s. exampleSubscriptionResponses)\<rparr>"

definition examplePhasedConfig :: pspConfig where
  "examplePhasedConfig =
     \<lparr>pspChains = [exampleChain], protoPsp = [exampleEncodedId],
      subscriptions = [exampleEncodedId \<mapsto> exampleSubscription],
      templates = [exampleTemplateId \<mapsto> exampleTemplate],
      pspEndpoints = [exampleEndpointId \<mapsto> (''ois'', ''ep'')], pspMnemonic = ''m''\<rparr>"

definition examplePhasedEnv :: phasedEnv where
  "examplePhasedEnv =
     \<lparr>groupCallApi = (\<lambda>g. GoSuccess (Some 102)),
      initializeProvider = (\<lambda>chain provider. Some (1000, LegacyGas 1)),
      checkSubscriptionCondition = (\<lambda>chain provider s v. True),
      sponsorTransactionCount = (\<lambda>chain provider wallet block. GoSuccess 7)\<rparr>"


definition exampleLegacyJob :: legacyKeeperJob where
  "exampleLegacyJob =
     \<lparr>legacyTemplateId = getExpectedTemplateId exampleLib (addressFromMnemonic exampleLib ''m'')
                           exampleEndpointId (airnodeAbiEncode exampleLib []),
      overrideParameters = [], legacyTemplateParameters = [], oisTitle = ''ois'',
      endpointName = ''ep'', legacyDeviationPercentage = Num 1,
      legacyKeeperSponsor = ''0xs1'', legacyRequestSponsor = ''0xr1''\<rparr>"

definition exampleLegacyConfig :: legacyConfig where
  "exampleLegacyConfig =
     \<lparr>legacyChains = [exampleChain],
      legacyJobs = [exampleLegacyJob], legacyOis = [(''ois'', [''ep''])],
      legacyMnemonic = ''m''\<rparr>"

definition exampleLegacyResponses :: legacyJobResponses where
  "exampleLegacyResponses =
     \<lparr>readBeacon = GoSuccess (Some 100), requestedBeaconUpdateEvents = GoSuccess [],
      updatedBeaconEvents = GoSuccess [],
      requestIsAwaitingFulfillment = (\<lambda>requestId. GoSuccess False),
      getGasPrice = Some (LegacyGas 1), requestBeaconUpdate = True,
      reservedParametersType = GoSuccess True, apiRequest = GoSuccess (Some 102),
      requestBeaconUpdateRetries = 0\<rparr>"




text \<open>Answers of a chain that refuses the transaction, after one retry where retries count.\<close>

definition exampleFailingResponses :: jobResponses where
  "exampleFailingResponses = exampleResponses\<lparr>requestBeaconUpdate := False\<rparr>"

definition exampleFailingSubscriptionResponses :: subscriptionResponses where
  "exampleFailingSubscriptionResponses =
     exampleSubscriptionResponses\<lparr>fulfillPspBeaconUpdate := (1, False)\<rparr>"

definition exampleFailingLegacyResponses :: legacyJobResponses where
  "exampleFailingLegacyResponses =
     exampleLegacyResponses\<lparr>requestBeaconUpdate := False, requestBeaconUpdateRetries := 1\<rparr>"

definition exampleIdSubscription :: idSubscription where
  "exampleIdSubscription = \<lparr>subscriptionId = examplePackedId, details = exampleSubscription\<rparr>"



text \<open>
  A second subscription of the same sponsor, and a chain whose condition call fails for
  the first subscription (or answers false) and holds for the second.
\<close>

definition exampleSubscription2 :: subscription where
  "exampleSubscription2 = exampleSubscription\<lparr>requester := ''0xq2''\<rparr>"

definition examplePackedId2 :: string where
  "examplePackedId2 = solidityKeccak256 exampleLib (subscriptionFields exampleSubscription2)"

definition exampleTwoSubscriptionsConfig :: pspConfig where
  "exampleTwoSubscriptionsConfig =
     examplePspConfig
       \<lparr>protoPsp := [examplePackedId, examplePackedId2],
        subscriptions := [examplePackedId \<mapsto> exampleSubscription,
                          examplePackedId2 \<mapsto> exampleSubscription2]\<rparr>"

definition exampleConditionEnv :: "bool goResult \<Rightarrow> pspEnv" where
  "exampleConditionEnv firstConditionCall =
     examplePspEnv
       \<lparr>subscriptionCalls := (\<lambda>chain provider s.
          if subscriptionId s = examplePackedId
          then exampleSubscriptionResponses\<lparr>conditionCall := firstConditionCall\<rparr>
          else exampleSubscriptionResponses)\<rparr>"

text \<open>A chain that is not an evm chain.\<close>

definition exampleOtherChain :: chainConfig where
  "exampleOtherChain = exampleChain\<lparr>chainType := ''solana''\<rparr>"

text \<open>
  Two requests for a beacon update without a matching update: the first one is no longer
  awaiting fulfillment, the second one is.
\<close>

definition exampleTwoPendingResponses :: jobResponses where
  "exampleTwoPendingResponses =
     exampleResponses
       \<lparr>requestedBeaconUpdateEvents := GoSuccess [''r1'', ''r2''],
        updatedBeaconEvents := GoSuccess [],
        requestIsAwaitingFulfillment := (\<lambda>requestId. GoSuccess (requestId = ''r2''))\<rparr>"

definition exampleTwoPendingLegacyResponses :: legacyJobResponses where
  "exampleTwoPendingLegacyResponses =
     exampleLegacyResponses
       \<lparr>requestedBeaconUpdateEvents := GoSuccess [''r1'', ''r2''],
        updatedBeaconEvents := GoSuccess [],
        requestIsAwaitingFulfillment := (\<lambda>requestId. GoSuccess (requestId = ''r2''))\<rparr>"

text \<open>
  A second keeper job of the same sponsor, placed before the first, and an API whose call
  for it is rejected (or resolves to no value) while the call of the first job succeeds.
\<close>

definition exampleJob2 :: keeperJob where
  "exampleJob2 =
     exampleJob
       \<lparr>templateId := getExpectedTemplateId exampleLib (addressFromMnemonic exampleLib ''m'')
                         exampleEndpointId
                         (airnodeAbiEncode exampleLib [(''string'', ''coin'', ''eth'')]),
        templateParameters := [(''string'', ''coin'', ''eth'')]\<rparr>"

definition exampleTwoJobsConfig :: rrpConfig where
  "exampleTwoJobsConfig = exampleRrpConfig\<lparr>rrpBeaconServerKeeperJobs := [exampleJob2, exampleJob]\<rparr>"

definition exampleApiEnv :: "int option goResult \<Rightarrow> rrpEnv" where
  "exampleApiEnv secondJobResponse =
     exampleRrpEnv
       \<lparr>callApi := (\<lambda>job. if templateParameters job = [] then GoSuccess (Some 102)
                           else secondJobResponse)\<rparr>"

definition exampleLegacyEnv :: legacyEnv where
  "exampleLegacyEnv =
     \<lparr>legacyBlockNumber = (\<lambda>chain provider. GoSuccess 1000),
      legacyTransactionCount = (\<lambda>chain provider wallet block. GoSuccess 7),
      legacyJobCalls = (\<lambda>chain provider job. exampleLegacyResponses)\<rparr>"

section \<open>The nonces of an outcome\<close>

fun outcomeNonces :: "jobOutcome \<Rightarrow> nat list" where
  "outcomeNonces (TxSubmitted n) = [n]"
| "outcomeNonces (TxFailed n) = [n]"
| "outcomeNonces _ = []"

definition submittedNonces :: "jobOutcome list \<Rightarrow> nat list" where
  "submittedNonces outcomes = concat (map outcomeNonces outcomes)"

fun fulfillNonces :: "subscriptionOutcome \<Rightarrow> nat list" where
  "fulfillNonces (Fulfill ns ok) = ns"
| "fulfillNonces _ = []"

definition fulfilledNonces :: "subscriptionOutcome list \<Rightarrow> nat list" where
  "fulfilledNonces outcomes = concat (map fulfillNonces outcomes)"

section \<open>Properties\<close>

subsection \<open>Arithmetic of the deviation check\<close>








lemmas example_unfolds =
  rrpJobStep_def checkDeviation_def calculateDeviation_def checkPreviousTxs_def
  pendingRequestedBeaconUpdateEvent_def submitBeaconUpdate_def basisPoints_def bnDiv_def
  legacyJobStep_def legacyApiCall_def legacyCheckDeviation_def legacyCheckPreviousTxs_def
  legacySubmit_def exampleLib_def solidityKeccak256_def deriveBeaconId_def
  exampleEndpointId_def



subsection \<open>The deviation threshold of the RRP jobs\<close>



subsection \<open>The nonces of a sponsor wallet\<close>

lemma submitBeaconUpdate_nonces:
  "outcomeNonces (fst (submitBeaconUpdate n r)) = [n ..< snd (submitBeaconUpdate n r)]"
  by (simp add: submitBeaconUpdate_def split: option.splits)

lemma checkPreviousTxs_nonces:
  "outcomeNonces (fst (checkPreviousTxs n r)) = [n ..< snd (checkPreviousTxs n r)]"
  by (simp add: checkPreviousTxs_def submitBeaconUpdate_nonces split: goResult.splits option.splits)

lemma checkDeviation_nonces:
  "outcomeNonces (fst (checkDeviation job a n r)) = [n ..< snd (checkDeviation job a n r)]"
proof (cases "readBeacon r")
  case GoError
  then show ?thesis by (simp add: checkDeviation_def)
next
  case (GoSuccess v)
  then show ?thesis
    by (cases v) (simp_all add: checkDeviation_def checkPreviousTxs_nonces del: abs_eq_0_iff)
qed

lemma rrpJobStep_nonces:
  "outcomeNonces (fst (rrpJobStep lib chain cache n job r))
     = [n ..< snd (rrpJobStep lib chain cache n job r)]"
  by (simp add: rrpJobStep_def checkDeviation_nonces split: option.splits)

lemma submitBeaconUpdate_mono: "n \<le> snd (submitBeaconUpdate n r)"
  by (simp add: submitBeaconUpdate_def split: option.splits)

lemma checkPreviousTxs_mono: "n \<le> snd (checkPreviousTxs n r)"
  by (simp add: checkPreviousTxs_def submitBeaconUpdate_mono split: goResult.splits option.splits)

lemma checkDeviation_mono: "n \<le> snd (checkDeviation job a n r)"
proof (cases "readBeacon r")
  case GoError
  then show ?thesis by (simp add: checkDeviation_def)
next
  case (GoSuccess v)
  then show ?thesis
    by (cases v) (simp_all add: checkDeviation_def checkPreviousTxs_mono del: abs_eq_0_iff)
qed

lemma rrpJobStep_mono: "n \<le> snd (rrpJobStep lib chain cache n job r)"
  by (simp add: rrpJobStep_def checkDeviation_mono split: option.splits)

lemma upt_append_upt: "i \<le> j \<Longrightarrow> [i ..< j] @ [j ..< j + k] = [i ..< j + k]"
  by (rule upt_add_eq_append[symmetric])


lemma processKeeperJobs_Cons:
  "processKeeperJobs lib chain cache n ((job, r) # rest)
     = (if fst (rrpJobStep lib chain cache n job r) = ThrewTypeError then [ThrewTypeError]
        else fst (rrpJobStep lib chain cache n job r)
             # processKeeperJobs lib chain cache (snd (rrpJobStep lib chain cache n job r)) rest)"
  by (simp only: processKeeperJobs.simps Let_def)

lemma submittedNonces_Cons:
  "submittedNonces (x # xs) = outcomeNonces x @ submittedNonces xs"
  by (simp add: submittedNonces_def)

lemma processKeeperJobs_nonces:
  "\<exists>k. submittedNonces (processKeeperJobs lib chain cache n js) = [n ..< n + k]"
proof (induction js arbitrary: n)
  case Nil
  show ?case by (rule exI[of _ 0]) (simp add: submittedNonces_def)
next
  case (Cons x js)
  obtain job r where x: "x = (job, r)" by (cases x)
  define n' where "n' = snd (rrpJobStep lib chain cache n job r)"
  from Cons.IH[of n'] obtain k where
    k: "submittedNonces (processKeeperJobs lib chain cache n' js) = [n' ..< n' + k]" by blast
  have le: "n \<le> n'" unfolding n'_def by (rule rrpJobStep_mono)
  show ?case
  proof (cases "fst (rrpJobStep lib chain cache n job r) = ThrewTypeError")
    case True
    have "processKeeperJobs lib chain cache n (x # js) = [ThrewTypeError]"
      unfolding x processKeeperJobs_Cons using True by simp
    then have "submittedNonces (processKeeperJobs lib chain cache n (x # js)) = [n ..< n + 0]"
      by (simp add: submittedNonces_def)
    then show ?thesis by (rule exI)
  next
    case False
    have step: "processKeeperJobs lib chain cache n (x # js)
        = fst (rrpJobStep lib chain cache n job r) # processKeeperJobs lib chain cache n' js"
      unfolding x processKeeperJobs_Cons n'_def using False by simp
    have nn: "outcomeNonces (fst (rrpJobStep lib chain cache n job r)) = [n ..< n']"
      unfolding n'_def by (rule rrpJobStep_nonces)
    have "submittedNonces (processKeeperJobs lib chain cache n (x # js))
        = [n ..< n'] @ [n' ..< n' + k]"
      by (simp only: step submittedNonces_Cons nn k)
    also have "\<dots> = [n ..< n' + k]"
      by (rule upt_append_upt[OF le])
    finally have eq: "submittedNonces (processKeeperJobs lib chain cache n (x # js))
        = [n ..< n' + k]" .
    have "n' + k = n + (n' - n + k)"
      using le by linarith
    then have "submittedNonces (processKeeperJobs lib chain cache n (x # js))
        = [n ..< n + (n' - n + k)]"
      using eq by (simp only:)
    then show ?thesis by (rule exI)
  qed
qed



lemma pspSubscriptionStep_nonces:
  "fulfillNonces (fst (pspSubscriptionStep lib tpls n s r))
     = [n ..< snd (pspSubscriptionStep lib tpls n s r)]"
  by (simp add: pspSubscriptionStep_def Let_def split: option.splits goResult.splits)

lemma pspSubscriptionStep_mono: "n \<le> snd (pspSubscriptionStep lib tpls n s r)"
  by (simp add: pspSubscriptionStep_def Let_def split: option.splits goResult.splits)

lemma processSubscriptions_Cons:
  "processSubscriptions lib tpls n ((s, r) # rest)
     = (if fst (pspSubscriptionStep lib tpls n s r) = ConditionCallThrew then [ConditionCallThrew]
        else fst (pspSubscriptionStep lib tpls n s r)
             # processSubscriptions lib tpls (snd (pspSubscriptionStep lib tpls n s r)) rest)"
  by (simp only: processSubscriptions.simps Let_def)

lemma fulfilledNonces_Cons:
  "fulfilledNonces (x # xs) = fulfillNonces x @ fulfilledNonces xs"
  by (simp add: fulfilledNonces_def)

lemma processSubscriptions_nonces:
  "\<exists>k. fulfilledNonces (processSubscriptions lib tpls n xs) = [n ..< n + k]"
proof (induction xs arbitrary: n)
  case Nil
  show ?case by (rule exI[of _ 0]) (simp add: fulfilledNonces_def)
next
  case (Cons x xs)
  obtain s r where x: "x = (s, r)" by (cases x)
  define n' where "n' = snd (pspSubscriptionStep lib tpls n s r)"
  from Cons.IH[of n'] obtain k where
    k: "fulfilledNonces (processSubscriptions lib tpls n' xs) = [n' ..< n' + k]" by blast
  have le: "n \<le> n'" unfolding n'_def by (rule pspSubscriptionStep_mono)
  show ?case
  proof (cases "fst (pspSubscriptionStep lib tpls n s r) = ConditionCallThrew")
    case True
    have "processSubscriptions lib tpls n (x # xs) = [ConditionCallThrew]"
      unfolding x processSubscriptions_Cons using True by simp
    then have "fulfilledNonces (processSubscriptions lib tpls n (x # xs)) = [n ..< n + 0]"
      by (simp add: fulfilledNonces_def)
    then show ?thesis by (rule exI)
  next
    case False
    have step: "processSubscriptions lib tpls n (x # xs)
        = fst (pspSubscriptionStep lib tpls n s r) # processSubscriptions lib tpls n' xs"
      unfolding x processSubscriptions_Cons n'_def using False by simp
    have nn: "fulfillNonces (fst (pspSubscriptionStep lib tpls n s r)) = [n ..< n']"
      unfolding n'_def by (rule pspSubscriptionStep_nonces)
    have "fulfilledNonces (processSubscriptions lib tpls n (x # xs))
        = [n ..< n'] @ [n' ..< n' + k]"
      by (simp only: step fulfilledNonces_Cons nn k)
    also have "\<dots> = [n ..< n' + k]"
      by (rule upt_append_upt[OF le])
    finally have eq: "fulfilledNonces (processSubscriptions lib tpls n (x # xs))
        = [n ..< n' + k]" .
    have "n' + k = n + (n' - n + k)"
      using le by linarith
    then have "fulfilledNonces (processSubscriptions lib tpls n (x # xs))
        = [n ..< n + (n' - n + k)]"
      using eq by (simp only:)
    then show ?thesis by (rule exI)
  qed
qed








lemmas example_task_unfolds =
  keeperSponsorTask_def beaconUpdateSponsorTask_def beaconUpdateSponsorWallet_def
  pspSubscriptionStep_def exampleRrpEnv_def exampleRrpConfig_def examplePspEnv_def
  examplePspConfig_def exampleSubscriptionResponses_def exampleSubscription_def
  exampleTemplateId_def exampleTemplate_def submittedNonces_def fulfilledNonces_def










subsection \<open>A failed submission\<close>

lemma upt_singleton:
  assumes "[m] = [n ..< n']"
  shows "m = n \<and> n' = Suc n"
proof -
  from assms have "length [n ..< n'] = 1" by (metis length_Cons list.size(3) One_nat_def)
  then have n': "n' = Suc n" by simp
  with assms show ?thesis by simp
qed

lemma rrp_failed_step:
  assumes "fst (rrpJobStep lib chain cache n job r) = TxFailed m"
  shows "m = n" and "snd (rrpJobStep lib chain cache n job r) = n + 1"
proof -
  have "outcomeNonces (TxFailed m) = [n ..< snd (rrpJobStep lib chain cache n job r)]"
    using rrpJobStep_nonces[of lib chain cache n job r] assms by simp
  then have "[m] = [n ..< snd (rrpJobStep lib chain cache n job r)]" by simp
  from upt_singleton[OF this]
  show "m = n" and "snd (rrpJobStep lib chain cache n job r) = n + 1" by simp_all
qed

lemma rrp_failed_continues:
  assumes "fst (rrpJobStep lib chain cache n job r) = TxFailed m"
  shows "m = n
    \<and> processKeeperJobs lib chain cache n ((job, r) # rest)
        = TxFailed n # processKeeperJobs lib chain cache (n + 1) rest
    \<and> n \<notin> set (submittedNonces (processKeeperJobs lib chain cache (n + 1) rest))"
proof -
  note f = rrp_failed_step[OF assms]
  have "processKeeperJobs lib chain cache n ((job, r) # rest)
        = TxFailed n # processKeeperJobs lib chain cache (n + 1) rest"
    unfolding processKeeperJobs_Cons using assms f by simp
  moreover have "n \<notin> set (submittedNonces (processKeeperJobs lib chain cache (n + 1) rest))"
    using processKeeperJobs_nonces[of lib chain cache "n + 1" rest] by auto
  ultimately show ?thesis using f(1) by simp
qed

lemma psp_failed_step:
  assumes "fst (pspSubscriptionStep lib tpls n s r) = Fulfill ns ok"
  shows "ns = [n ..< n + Suc (fst (fulfillPspBeaconUpdate r))]"
    and "snd (pspSubscriptionStep lib tpls n s r) = n + Suc (fst (fulfillPspBeaconUpdate r))"
  using assms
  by (auto simp: pspSubscriptionStep_def Let_def split: option.splits goResult.splits if_splits)

lemma psp_failed_continues:
  assumes "fst (pspSubscriptionStep lib tpls n s r) = Fulfill ns False"
  shows "ns \<noteq> [] \<and> hd ns = n
    \<and> processSubscriptions lib tpls n ((s, r) # rest)
        = Fulfill ns False # processSubscriptions lib tpls (last ns + 1) rest
    \<and> (\<forall>m \<in> set ns. m \<notin> set (fulfilledNonces (processSubscriptions lib tpls (last ns + 1) rest)))"
proof -
  define k where "k = fst (fulfillPspBeaconUpdate r)"
  note f = psp_failed_step[OF assms, folded k_def]
  have ns: "ns = [n ..< n + k] @ [n + k]" using f(1) by simp
  then have ne: "ns \<noteq> []" and l: "last ns + 1 = n + Suc k" by simp_all
  have "ns = n # [Suc n ..< Suc (n + k)]" using f(1) by (simp add: upt_conv_Cons)
  then have h: "hd ns = n" by simp
  have step: "processSubscriptions lib tpls n ((s, r) # rest)
        = Fulfill ns False # processSubscriptions lib tpls (last ns + 1) rest"
    unfolding processSubscriptions_Cons l using assms f(2) by simp
  obtain j where j: "fulfilledNonces (processSubscriptions lib tpls (n + Suc k) rest)
      = [n + Suc k ..< n + Suc k + j]"
    using processSubscriptions_nonces by blast
  have "\<forall>m \<in> set ns. m \<notin> set (fulfilledNonces (processSubscriptions lib tpls (last ns + 1) rest))"
    unfolding l j using f(1) by auto
  with ne h step show ?thesis by blast
qed

lemma legacyProcessJobs_Cons:
  "legacyProcessJobs lib config n ((job, r) # rest)
     = (if fst (legacyJobStep lib config n job r) = [ThrewTypeError] then [ThrewTypeError]
        else fst (legacyJobStep lib config n job r)
             @ legacyProcessJobs lib config (snd (legacyJobStep lib config n job r)) rest)"
  by (simp only: legacyProcessJobs.simps Let_def)

lemma legacySubmit_failed:
  assumes "fst (legacySubmit n r) \<noteq> []" and "last (fst (legacySubmit n r)) = TxFailed m"
  shows "snd (legacySubmit n r) = m + 1" and "n \<le> m"
  using assms by (auto simp: legacySubmit_def Let_def split: option.splits if_splits)

lemma legacy_failed_step:
  assumes "last (fst (legacyJobStep lib config n job r)) = TxFailed m"
  shows "snd (legacyJobStep lib config n job r) = m + 1" and "n \<le> m"
    and "fst (legacyJobStep lib config n job r) \<noteq> [ThrewTypeError]"
proof -
  have "snd (legacyJobStep lib config n job r) = m + 1 \<and> n \<le> m
      \<and> fst (legacyJobStep lib config n job r) \<noteq> [ThrewTypeError]"
    using assms
    by (auto simp: legacyJobStep_def legacyApiCall_def legacyCheckDeviation_def
        legacyCheckPreviousTxs_def legacySubmit_def Let_def
        split: option.splits goResult.splits if_splits simp del: abs_eq_0_iff)
  then show "snd (legacyJobStep lib config n job r) = m + 1" and "n \<le> m"
    and "fst (legacyJobStep lib config n job r) \<noteq> [ThrewTypeError]" by simp_all
qed

lemma legacy_failed_continues:
  assumes "last (fst (legacyJobStep lib config n job r)) = TxFailed m"
  shows "n \<le> m
    \<and> legacyProcessJobs lib config n ((job, r) # rest)
        = fst (legacyJobStep lib config n job r) @ legacyProcessJobs lib config (m + 1) rest"
  unfolding legacyProcessJobs_Cons using legacy_failed_step[OF assms] by simp


lemma submittedNonces_append:
  "submittedNonces (xs @ ys) = submittedNonces xs @ submittedNonces ys"
  by (simp add: submittedNonces_def)

lemma submittedNonces_single: "submittedNonces [x] = outcomeNonces x"
  by (simp add: submittedNonces_def)

lemma submittedNonces_map_TxFailed: "submittedNonces (map TxFailed ns) = ns"
  by (induction ns) (simp_all add: submittedNonces_def)

lemma legacySubmit_nonces:
  "submittedNonces (fst (legacySubmit n r)) = [n ..< snd (legacySubmit n r)]"
  by (simp add: legacySubmit_def Let_def submittedNonces_append submittedNonces_map_TxFailed
      submittedNonces_single split: option.splits)

lemma legacySubmit_mono: "n \<le> snd (legacySubmit n r)"
  by (simp add: legacySubmit_def Let_def split: option.splits)

lemma legacyCheckPreviousTxs_nonces:
  "submittedNonces (fst (legacyCheckPreviousTxs n r)) = [n ..< snd (legacyCheckPreviousTxs n r)]"
  by (simp add: legacyCheckPreviousTxs_def legacySubmit_nonces submittedNonces_single
      split: goResult.splits option.splits)

lemma legacyCheckPreviousTxs_mono: "n \<le> snd (legacyCheckPreviousTxs n r)"
  by (simp add: legacyCheckPreviousTxs_def legacySubmit_mono split: goResult.splits option.splits)

lemma legacyCheckDeviation_nonces:
  "submittedNonces (fst (legacyCheckDeviation job b a n r))
     = [n ..< snd (legacyCheckDeviation job b a n r)]"
  by (simp add: legacyCheckDeviation_def legacyCheckPreviousTxs_nonces submittedNonces_single
      del: abs_eq_0_iff)

lemma legacyCheckDeviation_mono: "n \<le> snd (legacyCheckDeviation job b a n r)"
  by (simp add: legacyCheckDeviation_def legacyCheckPreviousTxs_mono del: abs_eq_0_iff)

lemma legacyApiCall_nonces:
  "submittedNonces (fst (legacyApiCall config job b n r)) = [n ..< snd (legacyApiCall config job b n r)]"
  by (simp add: legacyApiCall_def legacyCheckDeviation_nonces submittedNonces_single
      split: goResult.splits option.splits)

lemma legacyApiCall_mono: "n \<le> snd (legacyApiCall config job b n r)"
  by (simp add: legacyApiCall_def legacyCheckDeviation_mono split: goResult.splits option.splits)

lemma legacyJobStep_nonces:
  "submittedNonces (fst (legacyJobStep lib config n job r)) = [n ..< snd (legacyJobStep lib config n job r)]"
  by (simp add: legacyJobStep_def legacyApiCall_nonces submittedNonces_single
      split: goResult.splits option.splits)

lemma legacyJobStep_mono: "n \<le> snd (legacyJobStep lib config n job r)"
  by (simp add: legacyJobStep_def legacyApiCall_mono split: goResult.splits option.splits)

lemma legacyProcessJobs_nonces:
  "\<exists>k. submittedNonces (legacyProcessJobs lib config n js) = [n ..< n + k]"
proof (induction js arbitrary: n)
  case Nil
  show ?case by (rule exI[of _ 0]) (simp add: submittedNonces_def)
next
  case (Cons x js)
  obtain job r where x: "x = (job, r)" by (cases x)
  define n' where "n' = snd (legacyJobStep lib config n job r)"
  from Cons.IH[of n'] obtain k where
    k: "submittedNonces (legacyProcessJobs lib config n' js) = [n' ..< n' + k]" by blast
  have le: "n \<le> n'" unfolding n'_def by (rule legacyJobStep_mono)
  show ?case
  proof (cases "fst (legacyJobStep lib config n job r) = [ThrewTypeError]")
    case True
    have "legacyProcessJobs lib config n (x # js) = [ThrewTypeError]"
      unfolding x legacyProcessJobs_Cons using True by simp
    then have "submittedNonces (legacyProcessJobs lib config n (x # js)) = [n ..< n + 0]"
      by (simp add: submittedNonces_def)
    then show ?thesis by (rule exI)
  next
    case False
    have step: "legacyProcessJobs lib config n (x # js)
        = fst (legacyJobStep lib config n job r) @ legacyProcessJobs lib config n' js"
      unfolding x legacyProcessJobs_Cons n'_def using False by simp
    have nn: "submittedNonces (fst (legacyJobStep lib config n job r)) = [n ..< n']"
      unfolding n'_def by (rule legacyJobStep_nonces)
    have "submittedNonces (legacyProcessJobs lib config n (x # js))
        = [n ..< n'] @ [n' ..< n' + k]"
      by (simp only: step submittedNonces_append nn k)
    also have "\<dots> = [n ..< n' + k]"
      by (rule upt_append_upt[OF le])
    finally have eq: "submittedNonces (legacyProcessJobs lib config n (x # js))
        = [n ..< n' + k]" .
    have "n' + k = n + (n' - n + k)"
      using le by linarith
    then have "submittedNonces (legacyProcessJobs lib config n (x # js))
        = [n ..< n + (n' - n + k)]"
      using eq by (simp only:)
    then show ?thesis by (rule exI)
  qed
qed

lemma legacy_failed_continues':
  assumes "fst (legacyJobStep lib config n job r) = outs @ [TxFailed m]"
  shows "n \<le> m
    \<and> legacyProcessJobs lib config n ((job, r) # rest)
        = outs @ [TxFailed m] @ legacyProcessJobs lib config (m + 1) rest
    \<and> (\<forall>k \<in> set (submittedNonces (outs @ [TxFailed m])).
          k \<notin> set (submittedNonces (legacyProcessJobs lib config (m + 1) rest)))"
proof -
  from assms have l: "last (fst (legacyJobStep lib config n job r)) = TxFailed m" by simp
  note c = legacy_failed_continues[OF l, of rest]
  have nn: "submittedNonces (outs @ [TxFailed m]) = [n ..< m + 1]"
    using legacyJobStep_nonces[of lib config n job r] legacy_failed_step(1)[OF l] assms
    by simp
  obtain j where j: "submittedNonces (legacyProcessJobs lib config (m + 1) rest)
      = [m + 1 ..< m + 1 + j]"
    using legacyProcessJobs_nonces by blast
  have "\<forall>k \<in> set (submittedNonces (outs @ [TxFailed m])).
          k \<notin> set (submittedNonces (legacyProcessJobs lib config (m + 1) rest))"
    unfolding nn j by auto
  with c assms show ?thesis by simp
qed

lemma example_failing_rrp_step:
  "rrpJobStep exampleLib ''1'' (\<lambda>beaconId. Some (Some 102)) 7 exampleJob exampleFailingResponses
     = (TxFailed 7, 8)"
  by (simp add: example_unfolds exampleJob_def exampleResponses_def exampleFailingResponses_def)

lemma example_failing_psp_step:
  "pspSubscriptionStep exampleLib (templates examplePspConfig) 7 exampleIdSubscription
     exampleFailingSubscriptionResponses = (Fulfill [7, 8] False, 9)"
  by (simp add: example_task_unfolds example_unfolds exampleIdSubscription_def
      exampleFailingSubscriptionResponses_def upt_rec)

lemma example_psp_step:
  "pspSubscriptionStep exampleLib (templates examplePspConfig) 9 exampleIdSubscription
     exampleSubscriptionResponses = (Fulfill [9] True, 10)"
  by (simp add: example_task_unfolds example_unfolds exampleIdSubscription_def)

lemma example_failing_legacy_step:
  "legacyJobStep exampleLib exampleLegacyConfig 7 exampleLegacyJob exampleFailingLegacyResponses
     = ([TxFailed 7, TxFailed 8], 9)"
  by (simp add: example_unfolds exampleLegacyJob_def exampleLegacyResponses_def
      exampleLegacyConfig_def exampleFailingLegacyResponses_def)

lemma example_legacy_step9:
  "legacyJobStep exampleLib exampleLegacyConfig 9 exampleLegacyJob exampleLegacyResponses
     = ([TxSubmitted 9], 10)"
  by (simp add: example_unfolds exampleLegacyJob_def exampleLegacyResponses_def
      exampleLegacyConfig_def)

lemma example_rrp_step8:
  "rrpJobStep exampleLib ''1'' (\<lambda>beaconId. Some (Some 102)) 8 exampleJob exampleResponses
     = (TxSubmitted 8, 9)"
  by (simp add: example_unfolds exampleJob_def exampleResponses_def)


text \<open>
  C2. When the submission of a subscription's (or job's) transaction fails, the loop goes
  on with the remaining ones of the same sponsor in their order, and the nonce of the
  failed transaction is spent: the next one starts at the nonce after the last one used,
  and no later transaction of the loop uses a nonce of the failed one again. In
  handlers/rrp.ts a job has one nonce; in psp.ts and in the first keeper handler every
  attempt of \<^verbatim>\<open>retryGo\<close> takes a nonce of its own.
\<close>

theorem failed_submission_consumes_nonce:
  "(fst (rrpJobStep lib chain cache n job r) = TxFailed m \<longrightarrow>
      m = n
      \<and> processKeeperJobs lib chain cache n ((job, r) # rest)
          = TxFailed n # processKeeperJobs lib chain cache (n + 1) rest
      \<and> n \<notin> set (submittedNonces (processKeeperJobs lib chain cache (n + 1) rest)))
   \<and> (fst (pspSubscriptionStep lib tpls n s sr) = Fulfill ns False \<longrightarrow>
      ns \<noteq> [] \<and> hd ns = n
      \<and> processSubscriptions lib tpls n ((s, sr) # srest)
          = Fulfill ns False # processSubscriptions lib tpls (last ns + 1) srest
      \<and> (\<forall>k \<in> set ns.
            k \<notin> set (fulfilledNonces (processSubscriptions lib tpls (last ns + 1) srest))))
   \<and> (fst (legacyJobStep lib config n ljob lr) = outs @ [TxFailed m'] \<longrightarrow>
      n \<le> m'
      \<and> legacyProcessJobs lib config n ((ljob, lr) # lrest)
          = outs @ [TxFailed m'] @ legacyProcessJobs lib config (m' + 1) lrest
      \<and> (\<forall>k \<in> set (submittedNonces (outs @ [TxFailed m'])).
            k \<notin> set (submittedNonces (legacyProcessJobs lib config (m' + 1) lrest))))"
proof (intro conjI impI)
  assume a: "fst (rrpJobStep lib chain cache n job r) = TxFailed m"
  note c = rrp_failed_continues[OF a, of rest]
  from c show "m = n" by simp
  from c show "processKeeperJobs lib chain cache n ((job, r) # rest)
          = TxFailed n # processKeeperJobs lib chain cache (n + 1) rest" by simp
  from c show "n \<notin> set (submittedNonces (processKeeperJobs lib chain cache (n + 1) rest))"
    by simp
next
  assume a: "fst (pspSubscriptionStep lib tpls n s sr) = Fulfill ns False"
  note c = psp_failed_continues[OF a, of srest]
  from c show "ns \<noteq> []" by simp
  from c show "hd ns = n" by simp
  from c show "processSubscriptions lib tpls n ((s, sr) # srest)
          = Fulfill ns False # processSubscriptions lib tpls (last ns + 1) srest" by simp
  from c show "\<forall>k \<in> set ns.
            k \<notin> set (fulfilledNonces (processSubscriptions lib tpls (last ns + 1) srest))"
    by simp
next
  assume a: "fst (legacyJobStep lib config n ljob lr) = outs @ [TxFailed m']"
  note c = legacy_failed_continues'[OF a, of lrest]
  from c show "n \<le> m'" by simp
  from c show "legacyProcessJobs lib config n ((ljob, lr) # lrest)
          = outs @ [TxFailed m'] @ legacyProcessJobs lib config (m' + 1) lrest" by simp
  from c show "\<forall>k \<in> set (submittedNonces (outs @ [TxFailed m'])).
            k \<notin> set (submittedNonces (legacyProcessJobs lib config (m' + 1) lrest))"
    by simp
qed


theorem failed_submission_consumes_nonce_witness:
  "fst (rrpJobStep exampleLib ''1'' (\<lambda>beaconId. Some (Some 102)) 7 exampleJob
          exampleFailingResponses) = TxFailed 7
   \<and> processKeeperJobs exampleLib ''1'' (\<lambda>beaconId. Some (Some 102)) 7
        ((exampleJob, exampleFailingResponses) # [(exampleJob, exampleResponses)])
      = TxFailed 7 # processKeeperJobs exampleLib ''1'' (\<lambda>beaconId. Some (Some 102)) (7 + 1)
                       [(exampleJob, exampleResponses)]
   \<and> processKeeperJobs exampleLib ''1'' (\<lambda>beaconId. Some (Some 102)) (7 + 1)
        [(exampleJob, exampleResponses)] = [TxSubmitted 8]
   \<and> fst (pspSubscriptionStep exampleLib (templates examplePspConfig) 7 exampleIdSubscription
          exampleFailingSubscriptionResponses) = Fulfill [7, 8] False
   \<and> processSubscriptions exampleLib (templates examplePspConfig) 7
        ((exampleIdSubscription, exampleFailingSubscriptionResponses)
         # [(exampleIdSubscription, exampleSubscriptionResponses)])
      = Fulfill [7, 8] False
        # processSubscriptions exampleLib (templates examplePspConfig) (last [7, 8] + 1)
            [(exampleIdSubscription, exampleSubscriptionResponses)]
   \<and> processSubscriptions exampleLib (templates examplePspConfig) (last [7, 8] + 1)
        [(exampleIdSubscription, exampleSubscriptionResponses)] = [Fulfill [9] True]
   \<and> fst (legacyJobStep exampleLib exampleLegacyConfig 7 exampleLegacyJob
          exampleFailingLegacyResponses) = [TxFailed 7] @ [TxFailed 8]
   \<and> legacyProcessJobs exampleLib exampleLegacyConfig 7
        ((exampleLegacyJob, exampleFailingLegacyResponses)
         # [(exampleLegacyJob, exampleLegacyResponses)])
      = [TxFailed 7] @ [TxFailed 8]
        @ legacyProcessJobs exampleLib exampleLegacyConfig (8 + 1)
            [(exampleLegacyJob, exampleLegacyResponses)]
   \<and> legacyProcessJobs exampleLib exampleLegacyConfig (8 + 1)
        [(exampleLegacyJob, exampleLegacyResponses)] = [TxSubmitted 9]"
proof -
  note inst = failed_submission_consumes_nonce[where lib = exampleLib and chain = "''1''"
      and cache = "\<lambda>beaconId. Some (Some 102)" and n = 7 and job = exampleJob
      and r = exampleFailingResponses and m = 7 and rest = "[(exampleJob, exampleResponses)]"
      and tpls = "templates examplePspConfig" and s = exampleIdSubscription
      and sr = exampleFailingSubscriptionResponses and ns = "[7, 8]"
      and srest = "[(exampleIdSubscription, exampleSubscriptionResponses)]"
      and config = exampleLegacyConfig and ljob = exampleLegacyJob
      and lr = exampleFailingLegacyResponses and outs = "[TxFailed 7]" and m' = 8
      and lrest = "[(exampleLegacyJob, exampleLegacyResponses)]"]
  have h1: "fst (rrpJobStep exampleLib ''1'' (\<lambda>beaconId. Some (Some 102)) 7 exampleJob
          exampleFailingResponses) = TxFailed 7"
    by (simp add: example_failing_rrp_step)
  have h2: "fst (pspSubscriptionStep exampleLib (templates examplePspConfig) 7
          exampleIdSubscription exampleFailingSubscriptionResponses) = Fulfill [7, 8] False"
    by (simp add: example_failing_psp_step)
  have h3: "fst (legacyJobStep exampleLib exampleLegacyConfig 7 exampleLegacyJob
          exampleFailingLegacyResponses) = [TxFailed 7] @ [TxFailed 8]"
    by (simp add: example_failing_legacy_step)
  have e1: "processKeeperJobs exampleLib ''1'' (\<lambda>beaconId. Some (Some 102)) (7 + 1)
        [(exampleJob, exampleResponses)] = [TxSubmitted 8]"
    by (simp add: example_rrp_step8)
  have e2: "processSubscriptions exampleLib (templates examplePspConfig) (last [7, 8] + 1)
        [(exampleIdSubscription, exampleSubscriptionResponses)] = [Fulfill [9] True]"
    by (simp add: example_psp_step)
  have e3: "legacyProcessJobs exampleLib exampleLegacyConfig (8 + 1)
        [(exampleLegacyJob, exampleLegacyResponses)] = [TxSubmitted 9]"
    by (simp add: example_legacy_step9)
  from inst h1 have c1: "processKeeperJobs exampleLib ''1'' (\<lambda>beaconId. Some (Some 102)) 7
        ((exampleJob, exampleFailingResponses) # [(exampleJob, exampleResponses)])
      = TxFailed 7 # processKeeperJobs exampleLib ''1'' (\<lambda>beaconId. Some (Some 102)) (7 + 1)
                       [(exampleJob, exampleResponses)]"
    by blast
  from inst h2 have c2: "processSubscriptions exampleLib (templates examplePspConfig) 7
        ((exampleIdSubscription, exampleFailingSubscriptionResponses)
         # [(exampleIdSubscription, exampleSubscriptionResponses)])
      = Fulfill [7, 8] False
        # processSubscriptions exampleLib (templates examplePspConfig) (last [7, 8] + 1)
            [(exampleIdSubscription, exampleSubscriptionResponses)]"
    by blast
  from inst h3 have c3: "legacyProcessJobs exampleLib exampleLegacyConfig 7
        ((exampleLegacyJob, exampleFailingLegacyResponses)
         # [(exampleLegacyJob, exampleLegacyResponses)])
      = [TxFailed 7] @ [TxFailed 8]
        @ legacyProcessJobs exampleLib exampleLegacyConfig (8 + 1)
            [(exampleLegacyJob, exampleLegacyResponses)]"
    by blast
  from h1 c1 e1 h2 c2 e2 h3 c3 e3 show ?thesis by (intro conjI)
qed


subsection \<open>The chains of a job\<close>




subsection \<open>The subscriptions that reach the later phases\<close>






















subsection \<open>The sponsor wallet of the PSP handlers\<close>









subsection \<open>A failed condition call in psp.ts\<close>

text \<open>
  In the four-phase handler a subscription whose condition does not hold is dropped and the
  others are kept in their order.
\<close>

lemma checkSubscriptionsConditions_kept:
  "map checked (checkSubscriptionsConditions isValid subs vals)
     = filter (\<lambda>s. isValid s (vals (subscriptionId s))) subs"
  by (simp add: checkSubscriptionsConditions_def comp_def)

lemma example_packed_ids_differ: "examplePackedId2 \<noteq> examplePackedId"
  by (simp add: examplePackedId_def examplePackedId2_def exampleSubscription2_def
      exampleSubscription_def exampleLib_def solidityKeccak256_def subscriptionFields_def)

lemma example_two_proto_subscriptions:
  "protoSubscriptions exampleLib (subscriptions exampleTwoSubscriptionsConfig)
     (protoPsp exampleTwoSubscriptionsConfig)
   = [\<lparr>subscriptionId = examplePackedId, details = exampleSubscription\<rparr>,
      \<lparr>subscriptionId = examplePackedId2, details = exampleSubscription2\<rparr>]"
proof -
  have s: "subscriptions exampleTwoSubscriptionsConfig examplePackedId = Some exampleSubscription"
    "subscriptions exampleTwoSubscriptionsConfig examplePackedId2 = Some exampleSubscription2"
    "protoPsp exampleTwoSubscriptionsConfig = [examplePackedId, examplePackedId2]"
    using example_packed_ids_differ
    by (simp_all add: exampleTwoSubscriptionsConfig_def examplePspConfig_def)
  have h: "solidityKeccak256 exampleLib (subscriptionFields exampleSubscription) = examplePackedId"
    "solidityKeccak256 exampleLib (subscriptionFields exampleSubscription2) = examplePackedId2"
    by (simp_all add: examplePackedId_def examplePackedId2_def)
  show ?thesis by (simp add: s h)
qed


lemma example_condition_tasks:
  "beaconUpdateTasks exampleLib (exampleConditionEnv c) exampleTwoSubscriptionsConfig
     = [processSubscriptions exampleLib (templates examplePspConfig) 7
          [(\<lparr>subscriptionId = examplePackedId, details = exampleSubscription\<rparr>,
            exampleSubscriptionResponses\<lparr>conditionCall := c\<rparr>),
           (\<lparr>subscriptionId = examplePackedId2, details = exampleSubscription2\<rparr>,
            exampleSubscriptionResponses)]]"
proof -
  have chains: "pspChains exampleTwoSubscriptionsConfig = [exampleChain]"
    and tpls: "templates exampleTwoSubscriptionsConfig = templates examplePspConfig"
    and mn: "pspMnemonic exampleTwoSubscriptionsConfig = ''m''"
    by (simp_all add: exampleTwoSubscriptionsConfig_def examplePspConfig_def)
  have g: "groupBy (\<lambda>s. sponsor (details s))
        [\<lparr>subscriptionId = examplePackedId, details = exampleSubscription\<rparr>,
         \<lparr>subscriptionId = examplePackedId2, details = exampleSubscription2\<rparr>]
      = [(''0xs1'', [\<lparr>subscriptionId = examplePackedId, details = exampleSubscription\<rparr>,
                    \<lparr>subscriptionId = examplePackedId2, details = exampleSubscription2\<rparr>])]"
    by (simp add: groupBy_def exampleSubscription_def exampleSubscription2_def)
  show ?thesis
    using example_packed_ids_differ
    by (simp add: beaconUpdateTasks_def chains exampleChain_def beaconUpdateProviderTask_def
        example_two_proto_subscriptions g beaconUpdateSponsorTask_def tpls mn
        exampleConditionEnv_def examplePspEnv_def)
qed

lemma example_psp_step2:
  "pspSubscriptionStep exampleLib (templates examplePspConfig) n
     \<lparr>subscriptionId = examplePackedId2, details = exampleSubscription2\<rparr>
     exampleSubscriptionResponses = (Fulfill [n] True, Suc n)"
  by (simp add: example_task_unfolds example_unfolds exampleSubscription2_def)

lemma example_psp_step_condition:
  "pspSubscriptionStep exampleLib (templates examplePspConfig) n
     \<lparr>subscriptionId = examplePackedId, details = exampleSubscription\<rparr>
     (exampleSubscriptionResponses\<lparr>conditionCall := c\<rparr>)
   = (case c of GoError \<Rightarrow> (ConditionCallThrew, n)
      | GoSuccess met \<Rightarrow> if met then (Fulfill [n] True, Suc n) else (ConditionsNotMet, n))"
  by (simp add: example_task_unfolds example_unfolds split: goResult.splits)


text \<open>
  C5 fails in psp.ts. Two subscriptions of one sponsor: when the condition call of the
  first one fails, the data of \<^verbatim>\<open>retryGo\<close> is nil, destructuring it throws before
  \<^verbatim>\<open>if (err)\<close> is reached, the loop is left with the second subscription
  unprocessed, and \<^verbatim>\<open>beaconUpdate\<close> rejects. When the call answers false the first
  subscription is skipped and the second one is fulfilled, as the claim says.
\<close>

theorem condition_call_failure_throws:
  "beaconUpdateTasks exampleLib (exampleConditionEnv GoError) exampleTwoSubscriptionsConfig
     = [[ConditionCallThrew]]
   \<and> beaconUpdate exampleLib (exampleConditionEnv GoError) exampleTwoSubscriptionsConfig
     = Thrown ''TypeError''
   \<and> beaconUpdateTasks exampleLib (exampleConditionEnv (GoSuccess False))
        exampleTwoSubscriptionsConfig
     = [[ConditionsNotMet, Fulfill [7] True]]
   \<and> beaconUpdate exampleLib (exampleConditionEnv (GoSuccess False))
        exampleTwoSubscriptionsConfig
     = Returned 200"
proof -
  have t1: "beaconUpdateTasks exampleLib (exampleConditionEnv GoError)
      exampleTwoSubscriptionsConfig = [[ConditionCallThrew]]"
    by (simp add: example_condition_tasks example_psp_step_condition)
  have t2: "beaconUpdateTasks exampleLib (exampleConditionEnv (GoSuccess False))
        exampleTwoSubscriptionsConfig = [[ConditionsNotMet, Fulfill [7] True]]"
    by (simp add: example_condition_tasks example_psp_step_condition example_psp_step2)
  have chains: "pspChains exampleTwoSubscriptionsConfig \<noteq> []"
    by (simp add: exampleTwoSubscriptionsConfig_def examplePspConfig_def)
  have b1: "beaconUpdate exampleLib (exampleConditionEnv GoError) exampleTwoSubscriptionsConfig
     = Thrown ''TypeError''"
    using chains by (simp add: beaconUpdate_def t1)
  have b2: "beaconUpdate exampleLib (exampleConditionEnv (GoSuccess False))
        exampleTwoSubscriptionsConfig = Returned 200"
    using chains by (simp add: beaconUpdate_def t2)
  from t1 b1 t2 b2 show ?thesis by (intro conjI)
qed


subsection \<open>A configuration without an evm chain\<close>

text \<open>
  C6 fails in psp.ts and in the first keeper handler. With one chain that is not an evm
  chain, \<^verbatim>\<open>isEmpty(chains)\<close> is false, no provider is processed and the handler
  returns its response; handlers/rrp.ts and \<^verbatim>\<open>initializeProviders\<close>, which test
  \<^verbatim>\<open>isEmpty(evmChains)\<close>, throw.
\<close>

theorem no_evm_chain_returns_normally:
  "beaconUpdate exampleLib examplePspEnv (examplePspConfig\<lparr>pspChains := [exampleOtherChain]\<rparr>)
     = Returned 200
   \<and> legacyHandler exampleLib exampleLegacyEnv (exampleLegacyConfig\<lparr>legacyChains := [exampleOtherChain]\<rparr>)
     = Returned 200
   \<and> rrpHandler exampleLib exampleRrpEnv (exampleRrpConfig\<lparr>chains := [exampleOtherChain]\<rparr>)
     = Thrown ''One or more evm compatible chain(s) must be defined in the provided config''
   \<and> initializeProviders examplePhasedEnv
        (examplePhasedConfig\<lparr>pspChains := [exampleOtherChain]\<rparr>)
     = Inl ''One or more evm compatible chains must be defined in the provided config''"
  by (simp add: beaconUpdate_def beaconUpdateTasks_def legacyHandler_def legacyTasks_def
      rrpHandler_def exampleOtherChain_def exampleChain_def exampleRrpConfig_def
      initializeProviders_def)


subsection \<open>Two pending requests\<close>

text \<open>
  C7 fails in both keeper handlers. Of the requests without a matching update only the
  first is asked about: when it is no longer awaiting fulfillment and a later one is, the
  transaction is submitted all the same.
\<close>

theorem second_pending_request_ignored:
  "requestedBeaconUpdateEvents exampleTwoPendingResponses = GoSuccess [''r1'', ''r2'']
   \<and> updatedBeaconEvents exampleTwoPendingResponses = GoSuccess []
   \<and> requestIsAwaitingFulfillment exampleTwoPendingResponses ''r2'' = GoSuccess True
   \<and> rrpJobStep exampleLib ''1'' (\<lambda>beaconId. Some (Some 102)) 7 exampleJob
        exampleTwoPendingResponses = (TxSubmitted 7, 8)
   \<and> legacyJobStep exampleLib exampleLegacyConfig 7 exampleLegacyJob
        exampleTwoPendingLegacyResponses = ([TxSubmitted 7], 8)"
  by (simp add: example_unfolds exampleJob_def exampleResponses_def
      exampleTwoPendingResponses_def exampleTwoPendingLegacyResponses_def
      exampleLegacyJob_def exampleLegacyResponses_def exampleLegacyConfig_def)



subsection \<open>A rejected API call in handlers/rrp.ts\<close>

text \<open>
  In the four-phase handler a group whose API call fails or gives no value leaves the
  values of the other groups as they are, and only a configuration without an evm chain
  makes \<^verbatim>\<open>updateBeacon\<close> throw.
\<close>

lemma executeApiCalls_failed_group:
  assumes "f g = GoError \<or> f g = GoSuccess None"
  shows "executeApiCalls f (gs1 @ g # gs2) = executeApiCalls f (gs1 @ gs2)"
  using assms by (auto simp: executeApiCalls_def)

lemma updateBeacon_throws_only_without_evm_chain:
  "(\<exists>e. updateBeacon lib env config = Inl e)
     \<longleftrightarrow> filter (\<lambda>chain. chainType chain = ''evm'') (pspChains config) = []"
  by (auto simp: updateBeacon_def initializeProviders_def Let_def split: sum.splits)

lemma example_beacon_ids_differ:
  "deriveBeaconId exampleLib exampleJob2 \<noteq> deriveBeaconId exampleLib exampleJob"
  by (simp add: deriveBeaconId_def exampleJob2_def exampleJob_def exampleLib_def
      solidityKeccak256_def)

lemma example_api_promises:
  "apiValuePromise exampleLib (exampleApiEnv x) exampleTwoJobsConfig exampleJob
     = GoSuccess (deriveBeaconId exampleLib exampleJob, Some 102)"
  "apiValuePromise exampleLib (exampleApiEnv x) exampleTwoJobsConfig exampleJob2
     = (case x of GoError \<Rightarrow> GoError
        | GoSuccess v \<Rightarrow> GoSuccess (deriveBeaconId exampleLib exampleJob2, v))"
proof -
  have e: "endpoints exampleTwoJobsConfig exampleEndpointId = Some (''ois'', ''ep'')"
    "airnodeWalletMnemonic exampleTwoJobsConfig = ''m''"
    "airnodeXpub exampleTwoJobsConfig = None"
    by (simp_all add: exampleTwoJobsConfig_def exampleRrpConfig_def)
  have k: "keccak256 exampleLib (abiEncode exampleLib [Str ''ois'', Str ''ep'']) = exampleEndpointId"
    by (simp add: exampleEndpointId_def)
  have j: "endpointId exampleJob = exampleEndpointId" "endpointId exampleJob2 = exampleEndpointId"
    "templateParameters exampleJob = []"
    "templateParameters exampleJob2 = [(''string'', ''coin'', ''eth'')]"
    "templateId exampleJob = getExpectedTemplateId exampleLib (addressFromMnemonic exampleLib ''m'')
                     exampleEndpointId (airnodeAbiEncode exampleLib [])"
    "templateId exampleJob2 = getExpectedTemplateId exampleLib (addressFromMnemonic exampleLib ''m'')
                     exampleEndpointId (airnodeAbiEncode exampleLib [(''string'', ''coin'', ''eth'')])"
    by (simp_all add: exampleJob_def exampleJob2_def)
  show "apiValuePromise exampleLib (exampleApiEnv x) exampleTwoJobsConfig exampleJob
     = GoSuccess (deriveBeaconId exampleLib exampleJob, Some 102)"
    by (simp add: apiValuePromise_def e k j rrpAirnodeAddress_def exampleApiEnv_def
        exampleRrpEnv_def)
  show "apiValuePromise exampleLib (exampleApiEnv x) exampleTwoJobsConfig exampleJob2
     = (case x of GoError \<Rightarrow> GoError
        | GoSuccess v \<Rightarrow> GoSuccess (deriveBeaconId exampleLib exampleJob2, v))"
    by (simp add: apiValuePromise_def e k j rrpAirnodeAddress_def exampleApiEnv_def
        exampleRrpEnv_def)
qed

lemma example_rrp_tasks:
  "rrpKeeperTasks exampleLib (exampleApiEnv x) exampleTwoJobsConfig
     = [processKeeperJobs exampleLib ''1''
          (logsAndApiValuesByBeaconId
             [case x of GoError \<Rightarrow> GoError
              | GoSuccess v \<Rightarrow> GoSuccess (deriveBeaconId exampleLib exampleJob2, v),
              GoSuccess (deriveBeaconId exampleLib exampleJob, Some 102)])
          7 [(exampleJob2, exampleResponses), (exampleJob, exampleResponses)]]"
proof -
  have c: "chains exampleTwoJobsConfig = [exampleChain]"
    "rrpBeaconServerKeeperJobs exampleTwoJobsConfig = [exampleJob2, exampleJob]"
    by (simp_all add: exampleTwoJobsConfig_def exampleRrpConfig_def)
  have g: "groupBy keeperSponsor [exampleJob2, exampleJob] = [(''0xs1'', [exampleJob2, exampleJob])]"
    by (simp add: groupBy_def exampleJob_def exampleJob2_def)
  have env: "getBlockNumber (exampleApiEnv x) ch p = GoSuccess 1000"
    "getTransactionCount (exampleApiEnv x) ch p w b = GoSuccess 7"
    "jobCalls (exampleApiEnv x) ch p j = exampleResponses" for ch p w b j
    by (simp_all add: exampleApiEnv_def exampleRrpEnv_def)
  have ch: "chainId exampleChain = ''1''" "chainType exampleChain = ''evm''"
    "providers exampleChain = [(''p'', ''url'')]"
    by (simp_all add: exampleChain_def)
  show ?thesis
    by (simp add: rrpKeeperTasks_def c example_api_promises ch rrpProviderTask_def
        g keeperSponsorTask_def env Let_def del: processKeeperJobs.simps)
qed

lemma example_rrp_step_cache:
  assumes "cache (deriveBeaconId exampleLib exampleJob) = Some (Some 102)"
  shows "rrpJobStep exampleLib ''1'' cache n exampleJob exampleResponses = (TxSubmitted n, Suc n)"
proof -
  have j: "chainIds exampleJob = None" by (simp add: exampleJob_def)
  have d: "checkDeviation exampleJob 102 n exampleResponses = (TxSubmitted n, Suc n)"
    by (simp add: checkDeviation_def calculateDeviation_def checkPreviousTxs_def
      pendingRequestedBeaconUpdateEvent_def submitBeaconUpdate_def basisPoints_def bnDiv_def
      exampleJob_def exampleResponses_def)
  show ?thesis by (simp add: rrpJobStep_def j assms d)
qed

lemma example_rrp_step_missing:
  "rrpJobStep exampleLib ''1'' cache n exampleJob2 exampleResponses
     = (case cache (deriveBeaconId exampleLib exampleJob2) of
          None \<Rightarrow> (ThrewTypeError, n)
        | Some None \<Rightarrow> (ApiValueMissing, n)
        | Some (Some a) \<Rightarrow> checkDeviation exampleJob2 a n exampleResponses)"
proof -
  have "chainIds exampleJob2 = None" by (simp add: exampleJob2_def exampleJob_def)
  then show ?thesis by (simp add: rrpJobStep_def)
qed


text \<open>
  C8 fails in handlers/rrp.ts. Two jobs of one keeper sponsor: when the API call of the
  first one is rejected, its beaconId is missing from the cache, the lookup in the loop
  throws, the second job is not processed and the handler rejects. When the call resolves
  to no value instead, the first job is skipped and the second one submits its
  transaction, as the claim says.
\<close>

theorem rejected_api_call_throws:
  "rrpKeeperTasks exampleLib (exampleApiEnv GoError) exampleTwoJobsConfig = [[ThrewTypeError]]
   \<and> rrpHandler exampleLib (exampleApiEnv GoError) exampleTwoJobsConfig = Thrown ''TypeError''
   \<and> rrpKeeperTasks exampleLib (exampleApiEnv (GoSuccess None)) exampleTwoJobsConfig
       = [[ApiValueMissing, TxSubmitted 7]]
   \<and> rrpHandler exampleLib (exampleApiEnv (GoSuccess None)) exampleTwoJobsConfig = Returned 200"
proof -
  let ?c1 = "logsAndApiValuesByBeaconId
      [GoError, GoSuccess (deriveBeaconId exampleLib exampleJob, Some 102)]"
  let ?c2 = "logsAndApiValuesByBeaconId
      [GoSuccess (deriveBeaconId exampleLib exampleJob2, None),
       GoSuccess (deriveBeaconId exampleLib exampleJob, Some 102)]"
  have c1: "?c1 (deriveBeaconId exampleLib exampleJob2) = None"
    using example_beacon_ids_differ by (simp add: logsAndApiValuesByBeaconId_def)
  have c2: "?c2 (deriveBeaconId exampleLib exampleJob2) = Some None"
    "?c2 (deriveBeaconId exampleLib exampleJob) = Some (Some 102)"
    using example_beacon_ids_differ by (simp_all add: logsAndApiValuesByBeaconId_def)
  have t1: "rrpKeeperTasks exampleLib (exampleApiEnv GoError) exampleTwoJobsConfig
      = [[ThrewTypeError]]"
    by (simp add: example_rrp_tasks example_rrp_step_missing c1)
  have t2: "rrpKeeperTasks exampleLib (exampleApiEnv (GoSuccess None)) exampleTwoJobsConfig
       = [[ApiValueMissing, TxSubmitted 7]]"
    by (simp add: example_rrp_tasks example_rrp_step_missing c2(1)
        example_rrp_step_cache[where cache = ?c2, OF c2(2)])
  have cfg: "airkeeperAirnodeAddress exampleTwoJobsConfig = None"
    "chains exampleTwoJobsConfig = [exampleChain]"
    by (simp_all add: exampleTwoJobsConfig_def exampleRrpConfig_def)
  have h1: "rrpHandler exampleLib (exampleApiEnv GoError) exampleTwoJobsConfig = Thrown ''TypeError''"
    by (simp add: rrpHandler_def cfg exampleChain_def t1)
  have h2: "rrpHandler exampleLib (exampleApiEnv (GoSuccess None)) exampleTwoJobsConfig
      = Returned 200"
    by (simp add: rrpHandler_def cfg exampleChain_def t2)
  from t1 h1 t2 h2 show ?thesis by (intro conjI)
qed

end
